theory Spec2Isabelle
  imports Main
begin

section \<open>Values of the Terraform plugin framework\<close>

text \<open>
  The provider stores its state in the framework's attribute values. Each of them is
  null, unknown or known. Lists and sets of the provider hold strings only; the one
  object it builds is the cluster metadata.
\<close>

datatype attr_type = StringType | BoolType | ListType attr_type | SetType attr_type

type_synonym attr_types = "(string \<times> attr_type) list"

datatype tf_string = StringNull | StringUnknown | StringValue string

datatype tf_bool = BoolNull | BoolUnknown | BoolValue bool

datatype tf_list = ListNull attr_type | ListUnknown attr_type | ListValue attr_type "string list"

datatype tf_set = SetNull attr_type | SetUnknown attr_type | SetValue attr_type "string list"

text \<open>\<open>ValueString\<close> of the framework: the empty string for a null or unknown value.\<close>

fun ValueString :: "tf_string \<Rightarrow> string" where
  "ValueString (StringValue s) = s"
| "ValueString StringNull = []"
| "ValueString StringUnknown = []"

subsection \<open>Diagnostics\<close>

datatype severity = SeverityError | SeverityWarning

datatype diagnostic = Diagnostic severity string string

type_synonym Diagnostics = "diagnostic list"

fun Severity :: "diagnostic \<Rightarrow> severity" where
  "Severity (Diagnostic sev summary detail) = sev"

text \<open>\<open>Append\<close> skips a diagnostic that the collection already holds.\<close>

fun Append :: "Diagnostics \<Rightarrow> Diagnostics \<Rightarrow> Diagnostics" where
  "Append diags [] = diags"
| "Append diags (d # ds) = Append (if d \<in> set diags then diags else diags @ [d]) ds"

definition AddError :: "Diagnostics \<Rightarrow> string \<Rightarrow> string \<Rightarrow> Diagnostics" where
  "AddError diags summary detail = Append diags [Diagnostic SeverityError summary detail]"

definition HasError :: "Diagnostics \<Rightarrow> bool" where
  "HasError diags = list_ex (\<lambda>d. Severity d = SeverityError) diags"

section \<open>The cluster resource (resource_cluster.go)\<close>

subsection \<open>Data\<close>

text \<open>
  \<open>clusterMetadataModel\<close> and \<open>clusterResourceModel\<close> are the structs of the source,
  with the source's field names.
\<close>

record clusterMetadataModel =
  ManagerUri :: tf_string
  ConnectionUri :: tf_string
  MetricsEndpoints :: tf_list

datatype tf_object =
    ObjectNull attr_types
  | ObjectUnknown attr_types
  | ObjectValue attr_types clusterMetadataModel

fun AttributeTypes :: "tf_object \<Rightarrow> attr_types" where
  "AttributeTypes (ObjectNull ats) = ats"
| "AttributeTypes (ObjectUnknown ats) = ats"
| "AttributeTypes (ObjectValue ats m) = ats"

record clusterResourceModel =
  ID :: tf_string
  OrgId :: tf_string
  Name :: tf_string
  ServiceType :: tf_string
  Provider :: tf_string
  InstanceSize :: tf_string
  Region :: tf_string
  Tags :: tf_set
  NetworkPolicyIds :: tf_set
  Dedicated :: tf_bool
  Shared :: tf_bool
  Status :: tf_string
  DataPlaneId :: tf_string
  LastUpdated :: tf_string
  Created :: tf_string
  Metadata :: tf_object

text \<open>
  The \<open>tfsdk\<close> names of the sixteen attributes that \<open>clusterResourceModel\<close> declares,
  in the order of the struct.
\<close>

definition clusterResourceModel_attributes :: "string list" where
  "clusterResourceModel_attributes =
     [''id'', ''org_id'', ''name'', ''service_type'', ''cloud_provider'', ''instance_size'',
      ''region'', ''tags'', ''network_policy_ids'', ''dedicated'', ''shared'', ''status'',
      ''data_plane_id'', ''last_updated'', ''created'', ''metadata'']"

text \<open>
  The response structs \<open>model.MdsCluster\<close> and its metadata are declared in the client
  package. They are modelled by the fields that the resource reads, prefixed with
  \<open>cl_\<close> and \<open>md_\<close> (the names without prefix are the fields of the state). A nil
  slice and an empty one are both the empty list; a nil metadata pointer is \<open>None\<close>.
\<close>

record MdsClusterMetadata =
  md_ManagerUri :: string
  md_ConnectionUri :: string
  md_MetricsEndpoints :: "string list"

record MdsCluster =
  cl_ID :: string
  cl_Name :: string
  cl_ServiceType :: string
  cl_Provider :: string
  cl_InstanceSize :: string
  cl_Region :: string
  cl_Status :: string
  cl_OrgId :: string
  cl_DataPlaneId :: string
  cl_LastUpdated :: string
  cl_Created :: string
  cl_Tags :: "string list"
  cl_Metadata :: "MdsClusterMetadata option"

text \<open>
  A Go \<open>error\<close> returned by the client. \<open>errors.As\<close> finds a \<open>core.ApiError\<close> in it
  (with its HTTP status code) or does not; either way \<open>Error\<close> is its message.
\<close>

datatype error = ApiError int string | OtherError string

fun Error :: "error \<Rightarrow> string" where
  "Error (ApiError StatusCode msg) = msg"
| "Error (OtherError msg) = msg"

definition StatusNotFound :: int where
  "StatusNotFound = 404"

subsection \<open>The framework's conversions\<close>

text \<open>
  The conversions \<open>types.ListValueFrom\<close>, \<open>types.SetValueFrom\<close>,
  \<open>types.ObjectValueFrom\<close>, the \<open>State.Set\<close> of a response and the \<open>%v\<close> rendering
  of a string value belong to the plugin framework, not to the provider. They are
  parameters of the model: which diagnostics they report is left open. Of
  \<open>ObjectValueFrom\<close> the model fixes that the result is an unknown object of the
  given attribute types when it reports an error, and the object of these types with the
  given fields otherwise; of \<open>State.Set\<close> that the state is stored unless it reports an
  error.
\<close>

record 's framework =
  ListValueFrom :: "attr_type \<Rightarrow> string list \<Rightarrow> tf_list \<times> Diagnostics"
  SetValueFrom :: "attr_type \<Rightarrow> string list \<Rightarrow> tf_set \<times> Diagnostics"
  ObjectValueFrom_diags :: "attr_types \<Rightarrow> clusterMetadataModel \<Rightarrow> Diagnostics"
  StateSet_diags :: "'s \<Rightarrow> Diagnostics"
  String_v :: "tf_string \<Rightarrow> string"

definition ObjectValueFrom ::
  "'s framework \<Rightarrow> attr_types \<Rightarrow> clusterMetadataModel \<Rightarrow> tf_object \<times> Diagnostics" where
  "ObjectValueFrom fw ats m =
     (let diags = ObjectValueFrom_diags fw ats m
      in if HasError diags then (ObjectUnknown ats, diags) else (ObjectValue ats m, diags))"

subsection \<open>saveFromResponse\<close>

text \<open>
  The state is threaded together with a log of the attributes assigned so far, by
  their \<open>tfsdk\<close> names: \<open>assign a f\<close> is the statement \<open>state.A = \<dots>\<close> of the source. The log
  is not a variable of the source; it records which assignments a call executes.
  \<open>exec\<close> runs a sequence of assignments in order.
\<close>

type_synonym logged_state = "clusterResourceModel \<times> string list"

type_synonym assignment = "string \<times> (clusterResourceModel \<Rightarrow> clusterResourceModel)"

definition assign ::
  "string \<Rightarrow> (clusterResourceModel \<Rightarrow> clusterResourceModel) \<Rightarrow> logged_state \<Rightarrow> logged_state" where
  "assign a f sl = (f (fst sl), snd sl @ [a])"

fun exec :: "assignment list \<Rightarrow> logged_state \<Rightarrow> logged_state" where
  "exec [] sl = sl"
| "exec (af # afs) sl = exec afs (assign (fst af) (snd af) sl)"

text \<open>
  The first eleven statements of \<open>saveFromResponse\<close>: the string attributes, each set
  to the known value of the field of the response.
\<close>

definition saveFromResponse_strings :: "MdsCluster \<Rightarrow> assignment list" where
  "saveFromResponse_strings cluster =
     [(''id'', \<lambda>st. st\<lparr>ID := StringValue (cl_ID cluster)\<rparr>),
      (''name'', \<lambda>st. st\<lparr>Name := StringValue (cl_Name cluster)\<rparr>),
      (''service_type'', \<lambda>st. st\<lparr>ServiceType := StringValue (cl_ServiceType cluster)\<rparr>),
      (''cloud_provider'', \<lambda>st. st\<lparr>Provider := StringValue (cl_Provider cluster)\<rparr>),
      (''instance_size'', \<lambda>st. st\<lparr>InstanceSize := StringValue (cl_InstanceSize cluster)\<rparr>),
      (''region'', \<lambda>st. st\<lparr>Region := StringValue (cl_Region cluster)\<rparr>),
      (''status'', \<lambda>st. st\<lparr>Status := StringValue (cl_Status cluster)\<rparr>),
      (''org_id'', \<lambda>st. st\<lparr>OrgId := StringValue (cl_OrgId cluster)\<rparr>),
      (''data_plane_id'', \<lambda>st. st\<lparr>DataPlaneId := StringValue (cl_DataPlaneId cluster)\<rparr>),
      (''last_updated'', \<lambda>st. st\<lparr>LastUpdated := StringValue (cl_LastUpdated cluster)\<rparr>),
      (''created'', \<lambda>st. st\<lparr>Created := StringValue (cl_Created cluster)\<rparr>)]"

text \<open>
  The metadata model that \<open>saveFromResponse\<close> builds: two empty strings and a null list
  when the response has no metadata, the fields of the metadata otherwise. \<open>Inl\<close> is the
  early \<open>return 1\<close> after the conversion of the metrics endpoints.
\<close>

definition saveFromResponse_metadataModel ::
  "'s framework \<Rightarrow> Diagnostics \<Rightarrow> MdsCluster
     \<Rightarrow> Diagnostics + Diagnostics \<times> clusterMetadataModel" where
  "saveFromResponse_metadataModel fw diagnostics cluster =
    (let metadataModel = \<lparr>ManagerUri = StringValue [], ConnectionUri = StringValue [],
                          MetricsEndpoints = ListNull StringType\<rparr>
     in case cl_Metadata cluster of
          None \<Rightarrow> Inr (diagnostics, metadataModel)
        | Some md \<Rightarrow>
            (let (list, diags) = ListValueFrom fw StringType (md_MetricsEndpoints md);
                 diagnostics = Append diagnostics diags
             in if HasError diagnostics then Inl diagnostics
                else Inr (diagnostics,
                       metadataModel\<lparr>ManagerUri := StringValue (md_ManagerUri md),
                         ConnectionUri := StringValue (md_ConnectionUri md),
                         MetricsEndpoints := list\<rparr>)))"

text \<open>
  The result is the returned \<open>int8\<close>, the diagnostics, the state and the log.
\<close>

definition saveFromResponse ::
  "'s framework \<Rightarrow> Diagnostics \<Rightarrow> clusterResourceModel \<Rightarrow> MdsCluster
     \<Rightarrow> int \<times> Diagnostics \<times> clusterResourceModel \<times> string list" where
  "saveFromResponse fw diagnostics state0 cluster =
    (let sl = exec (saveFromResponse_strings cluster) (state0, [])
     in case saveFromResponse_metadataModel fw diagnostics cluster of
          Inl diagnostics \<Rightarrow> (1, diagnostics, fst sl, snd sl)
        | Inr (diagnostics, metadataModel) \<Rightarrow>
            (let (metadataObject, diags) =
                   ObjectValueFrom fw (AttributeTypes (Metadata (fst sl))) metadataModel;
                 diagnostics = Append diagnostics diags
             in if HasError diagnostics then (1, diagnostics, fst sl, snd sl)
                else
                  (let sl = assign ''metadata'' (\<lambda>st. st\<lparr>Metadata := metadataObject\<rparr>) sl;
                       (list, diags) = SetValueFrom fw StringType (cl_Tags cluster);
                       diagnostics = Append diagnostics diags
                   in if HasError diagnostics then (1, diagnostics, fst sl, snd sl)
                      else
                        (let sl = assign ''tags'' (\<lambda>st. st\<lparr>Tags := list\<rparr>) sl
                         in (0, diagnostics, fst sl, snd sl)))))"

subsection \<open>The remote service\<close>

text \<open>
  The controller client is outside the provider. Its answers are the input of the model:
  the result of the create and of the delete request, the answer to the query of clusters
  by name, and the answers of the successive calls of \<open>GetMdsCluster\<close>, in call order. The
  bodies of the requests do not reach the provider's control flow.
\<close>

record api =
  CreateMdsCluster :: "error option"
  GetMdsClusters :: "error + MdsCluster list"
  GetMdsCluster :: "(error + MdsCluster) list"
  DeleteMdsCluster :: "error option"

text \<open>
  What an operation hands back to the plugin host: the diagnostics and the state it has
  set (\<open>None\<close> when it set none). \<open>fetches\<close> counts the calls of \<open>GetMdsClusters\<close> and
  \<open>GetMdsCluster\<close> the operation made.
\<close>

record 's response =
  Diagnostics :: Diagnostics
  State :: "'s option"
  fetches :: nat

subsection \<open>Create\<close>

text \<open>
  The loop of \<open>Create\<close>: while the status is neither \<open>READY\<close> nor \<open>FAILED\<close>, sleep ten
  seconds and fetch the cluster again; a fetch error leaves the operation. The second
  argument holds the answers still to come and the third counts the fetches made. The
  source sets no limit to the iterations: when the answers run out while the cluster is
  still pending, the loop has not returned, which is \<open>None\<close>.
\<close>

fun create_poll ::
  "MdsCluster \<Rightarrow> (error + MdsCluster) list \<Rightarrow> nat \<Rightarrow> ((error + MdsCluster) \<times> nat) option" where
  "create_poll createdCluster [] n =
     (if cl_Status createdCluster \<noteq> ''READY'' \<and> cl_Status createdCluster \<noteq> ''FAILED''
      then None
      else Some (Inr createdCluster, n))"
| "create_poll createdCluster (r # rs) n =
     (if cl_Status createdCluster \<noteq> ''READY'' \<and> cl_Status createdCluster \<noteq> ''FAILED''
      then (case r of
              Inl err \<Rightarrow> Some (Inl err, Suc n)
            | Inr fetched \<Rightarrow> create_poll fetched rs (Suc n))
      else Some (Inr createdCluster, n))"

definition Create ::
  "clusterResourceModel framework \<Rightarrow> api \<Rightarrow> clusterResourceModel \<Rightarrow> Diagnostics
     \<Rightarrow> clusterResourceModel response option" where
  "Create fw client plan plan_diags =
    (let diagnostics = Append [] plan_diags
     in if HasError diagnostics
        then Some \<lparr>Diagnostics = diagnostics, State = None, fetches = 0\<rparr>
        else
          (case CreateMdsCluster client of
             Some err \<Rightarrow>
               Some \<lparr>Diagnostics = AddError diagnostics ''Submitting request to create cluster''
                        (''Could not create cluster, unexpected error: '' @ Error err),
                     State = None, fetches = 0\<rparr>
           | None \<Rightarrow>
              (case GetMdsClusters client of
                 Inl err \<Rightarrow>
                   Some \<lparr>Diagnostics = AddError diagnostics ''Fetching clusters''
                            (''Could not fetch clusters by name, unexpected error: '' @ Error err),
                         State = None, fetches = 1\<rparr>
               | Inr clusters \<Rightarrow>
                  (case clusters of
                     [] \<Rightarrow>
                       Some \<lparr>Diagnostics = AddError diagnostics ''Fetching Clusters''
                                ''Unable to fetch the created cluster'',
                             State = None, fetches = 1\<rparr>
                   | createdCluster # others \<Rightarrow>
                       if cl_Status createdCluster = ''FAILED''
                       then Some \<lparr>Diagnostics = AddError diagnostics ''Error creating cluster''
                                     (''Cluster creation failed with the status 'FAILED'' @ [CHR 0x27]),
                                   State = None, fetches = 1\<rparr>
                       else
                         (case create_poll createdCluster (GetMdsCluster client) 1 of
                            None \<Rightarrow> None
                          | Some (Inl err, n) \<Rightarrow>
                              Some \<lparr>Diagnostics = AddError diagnostics ''Fetching cluster''
                                       (''Could not fetch cluster by ID, unexpected error: ''
                                          @ Error err),
                                    State = None, fetches = n\<rparr>
                          | Some (Inr createdCluster, n) \<Rightarrow>
                              (case saveFromResponse fw diagnostics plan createdCluster of
                                 (rc, diagnostics, plan, written) \<Rightarrow>
                                   if rc \<noteq> 0
                                   then Some \<lparr>Diagnostics = diagnostics, State = None,
                                               fetches = n\<rparr>
                                   else
                                     (let diags = StateSet_diags fw plan
                                      in Some \<lparr>Diagnostics = Append diagnostics diags,
                                               State = (if HasError diags then None
                                                        else Some plan),
                                               fetches = n\<rparr>)))))))"

subsection \<open>Delete\<close>

text \<open>
  The loop of \<open>Delete\<close>: sleep ten seconds and fetch the cluster; an error that is an
  \<open>ApiError\<close> with status 404 ends the loop, any other error leaves the operation with a
  diagnostic, and a fetch that succeeds repeats the loop. The result is the error to
  report, if any, and the number of fetches; \<open>None\<close> when the answers run out first.
\<close>

fun delete_poll :: "(error + MdsCluster) list \<Rightarrow> nat \<Rightarrow> (error option \<times> nat) option" where
  "delete_poll [] n = None"
| "delete_poll (r # rs) n =
     (case r of
        Inr fetched \<Rightarrow> delete_poll rs (Suc n)
      | Inl err \<Rightarrow>
          (case err of
             ApiError StatusCode msg \<Rightarrow>
               if StatusCode = StatusNotFound then Some (None, Suc n)
               else Some (Some err, Suc n)
           | OtherError msg \<Rightarrow> Some (Some err, Suc n)))"

definition Delete ::
  "clusterResourceModel framework \<Rightarrow> api \<Rightarrow> clusterResourceModel \<Rightarrow> Diagnostics
     \<Rightarrow> clusterResourceModel response option" where
  "Delete fw client state state_diags =
    (let diagnostics = Append [] state_diags
     in if HasError diagnostics
        then Some \<lparr>Diagnostics = diagnostics, State = None, fetches = 0\<rparr>
        else
          (case DeleteMdsCluster client of
             Some err \<Rightarrow>
               Some \<lparr>Diagnostics = AddError diagnostics ''Deleting MDS Cluster''
                        (''Could not delete MDS cluster by ID '' @ ValueString (ID state)
                           @ '': '' @ Error err),
                     State = None, fetches = 0\<rparr>
           | None \<Rightarrow>
              (case delete_poll (GetMdsCluster client) 0 of
                 None \<Rightarrow> None
               | Some (None, n) \<Rightarrow>
                   Some \<lparr>Diagnostics = diagnostics, State = None, fetches = n\<rparr>
               | Some (Some err, n) \<Rightarrow>
                   Some \<lparr>Diagnostics = AddError diagnostics ''Fetching cluster''
                            (''Could not fetch cluster by id ['' @ String_v fw (ID state)
                               @ ''], unexpected error: '' @ Error err),
                         State = None, fetches = n\<rparr>)))"

section \<open>The data sources (data_source_regions.go)\<close>

subsection \<open>Regions\<close>




subsection \<open>Service roles\<close>

text \<open>
  The response of \<open>GetMdsServiceRoles\<close> is declared in the client package. It is modelled
  by the fields that \<open>Read\<close> reads: \<open>rolesResponse.Embedded.ServiceRoleDTO\<close> is a list
  whose elements have \<open>Roles\<close>, and a role has an id, a name, a description, a type and
  permissions. The fields of the response carry the prefixes \<open>pm_\<close>, \<open>rl_\<close> and
  \<open>dto_\<close>.
\<close>

record MdsPermission =
  pm_Name :: string
  pm_Description :: string
  pm_PermissionId :: string

record MdsRole =
  rl_RoleID :: string
  rl_Name :: string
  rl_Description :: string
  rl_Type :: string
  rl_Permissions :: "MdsPermission list"

record MdsServiceRoleDTO =
  dto_Roles :: "MdsRole list"

record MdsRolesEmbedded =
  ServiceRoleDTO :: "MdsServiceRoleDTO list"

record MdsRolesResponse =
  Embedded :: MdsRolesEmbedded

record MDSRolesQuery =
  query_Type :: string

text \<open>The structs of the state, with prefixes where a name is taken.\<close>

record MdsServiceRolePermissionsModel =
  perm_Name :: tf_string
  perm_Description :: tf_string
  PermissionId :: tf_string

record ServiceRolesModel =
  RoleId :: tf_string
  role_Name :: tf_string
  role_Description :: tf_string
  role_Type :: tf_string
  Permissions :: "MdsServiceRolePermissionsModel list"

record ServiceRolesDataSourceModel =
  Roles :: "ServiceRolesModel list"
  Type :: tf_string

text \<open>A run-time panic of Go: an index outside the slice.\<close>

datatype panic = IndexOutOfRange

record 's read_response =
  read_Diagnostics :: Diagnostics
  read_State :: "'s option"

text \<open>
  The loops of \<open>Read\<close>; \<open>permission_literal\<close> and \<open>roleList_literal\<close> are the struct
  literals \<open>permission\<close> and \<open>roleList\<close> that they build. The inner loop over the permissions of a role appends to
  \<open>permissionsVal\<close>, which is declared before the outer loop and never reset. The second
  inner loop ranges over all roles of the response again and appends one entry per role to
  \<open>state.Roles\<close>, each with the current \<open>permissionsVal\<close>. A Go slice stored in an entry
  keeps its length, and \<open>append\<close> writes only behind the length of the slice it extends, so
  the elements an entry sees do not change afterwards: the entry holds the list as a value.
\<close>

definition permission_literal :: "MdsPermission \<Rightarrow> MdsServiceRolePermissionsModel" where
  "permission_literal permissionList =
     \<lparr>perm_Name = StringValue (pm_Name permissionList),
      perm_Description = StringValue (pm_Description permissionList),
      PermissionId = StringValue (pm_PermissionId permissionList)\<rparr>"

definition roleList_literal ::
  "MdsRole \<Rightarrow> MdsServiceRolePermissionsModel list \<Rightarrow> ServiceRolesModel" where
  "roleList_literal role permissionsVal =
     \<lparr>RoleId = StringValue (rl_RoleID role), role_Name = StringValue (rl_Name role),
      role_Description = StringValue (rl_Description role),
      role_Type = StringValue (rl_Type role), Permissions = permissionsVal\<rparr>"

fun Read_permissions ::
  "MdsPermission list \<Rightarrow> MdsServiceRolePermissionsModel list
     \<Rightarrow> MdsServiceRolePermissionsModel list" where
  "Read_permissions [] permissionsVal = permissionsVal"
| "Read_permissions (permissionList # rest) permissionsVal =
     (let permission = permission_literal permissionList
      in Read_permissions rest (permissionsVal @ [permission]))"

fun Read_roles ::
  "MdsRole list \<Rightarrow> MdsServiceRolePermissionsModel list \<Rightarrow> ServiceRolesDataSourceModel
     \<Rightarrow> ServiceRolesDataSourceModel" where
  "Read_roles [] permissionsVal state = state"
| "Read_roles (role # rest) permissionsVal state =
     (let roleList = roleList_literal role permissionsVal
      in Read_roles rest permissionsVal (state\<lparr>Roles := Roles state @ [roleList]\<rparr>))"

text \<open>
  The outer loop: its first argument holds the roles still to visit, the second all roles
  of \<open>ServiceRoleDTO[0]\<close>.
\<close>

fun Read_loop ::
  "MdsRole list \<Rightarrow> MdsRole list
     \<Rightarrow> MdsServiceRolePermissionsModel list \<times> ServiceRolesDataSourceModel
     \<Rightarrow> MdsServiceRolePermissionsModel list \<times> ServiceRolesDataSourceModel" where
  "Read_loop [] allRoles (permissionsVal, state) = (permissionsVal, state)"
| "Read_loop (role # rest) allRoles (permissionsVal, state) =
     (let permissionsVal = Read_permissions (rl_Permissions role) permissionsVal;
          state = Read_roles allRoles permissionsVal state
      in Read_loop rest allRoles (permissionsVal, state))"

text \<open>
  \<open>Read\<close> of the service roles data source. \<open>state\<close> is the configuration as
  \<open>req.Config.Get\<close> reads it, with the diagnostics of that call, which \<open>Read\<close> appends
  and does not check. The constant \<open>role_type.RABBITMQ\<close> is declared in the client
  package and is the parameter \<open>RABBITMQ\<close>. The client is a function from the query to
  its answer. The index \<open>ServiceRoleDTO[0]\<close> has no guard: on an empty list the
  operation panics.
\<close>

definition serviceRolesDatasource_Read ::
  "ServiceRolesDataSourceModel framework \<Rightarrow> string
     \<Rightarrow> (MDSRolesQuery \<Rightarrow> error + MdsRolesResponse)
     \<Rightarrow> ServiceRolesDataSourceModel \<Rightarrow> Diagnostics
     \<Rightarrow> panic + ServiceRolesDataSourceModel read_response" where
  "serviceRolesDatasource_Read fw RABBITMQ GetMdsServiceRoles state config_diags =
    (let diagnostics = Append [] config_diags;
         query = \<lparr>query_Type = RABBITMQ\<rparr>
     in case GetMdsServiceRoles query of
          Inl err \<Rightarrow>
            Inr \<lparr>read_Diagnostics = AddError diagnostics ''Unable to Read MDS Service roles''
                                     (Error err),
                 read_State = None\<rparr>
        | Inr rolesResponse \<Rightarrow>
            (case ServiceRoleDTO (Embedded rolesResponse) of
               [] \<Rightarrow> Inl IndexOutOfRange
             | first # others \<Rightarrow>
                 (let (permissionsVal, state) =
                        Read_loop (dto_Roles first) (dto_Roles first) ([], state);
                      diags = StateSet_diags fw state
                  in Inr \<lparr>read_Diagnostics = Append diagnostics diags,
                          read_State = (if HasError diags then None else Some state)\<rparr>)))"

section \<open>Concrete inputs\<close>

text \<open>
  Inputs for concrete runs: the attribute types of the metadata object as the schema
  declares them, a framework whose conversions report no diagnostics, a cluster of a
  given status, a plan, and a service that accepts the create and the delete request.
\<close>

definition metadata_attr_types :: attr_types where
  "metadata_attr_types =
     [(''manager_uri'', StringType), (''connection_uri'', StringType),
      (''metrics_endpoints'', ListType StringType)]"

definition quiet_framework :: "'s framework" where
  "quiet_framework =
     \<lparr>ListValueFrom = (\<lambda>t xs. (ListValue t xs, [])),
      SetValueFrom = (\<lambda>t xs. (SetValue t xs, [])),
      ObjectValueFrom_diags = (\<lambda>ats m. []),
      StateSet_diags = (\<lambda>s. []),
      String_v = ValueString\<rparr>"

definition demo_cluster :: "string \<Rightarrow> MdsCluster" where
  "demo_cluster status =
     \<lparr>cl_ID = ''c-1'', cl_Name = ''demo'', cl_ServiceType = ''RABBITMQ'', cl_Provider = ''aws'',
      cl_InstanceSize = ''SMALL'', cl_Region = ''eu-west-2'', cl_Status = status,
      cl_OrgId = ''org-1'', cl_DataPlaneId = ''dp-1'', cl_LastUpdated = ''t1'',
      cl_Created = ''t0'', cl_Tags = [''blue''], cl_Metadata = None\<rparr>"

text \<open>The same cluster in the status \<open>READY\<close>, with metadata.\<close>

definition demo_cluster_metadata :: MdsCluster where
  "demo_cluster_metadata =
     (demo_cluster ''READY'')
       \<lparr>cl_Metadata := Some \<lparr>md_ManagerUri = ''https://manager'',
                               md_ConnectionUri = ''amqps://broker'',
                               md_MetricsEndpoints = [''https://metrics'']\<rparr>\<rparr>"

definition demo_plan :: clusterResourceModel where
  "demo_plan =
     \<lparr>ID = StringUnknown, OrgId = StringUnknown, Name = StringValue ''demo'',
      ServiceType = StringValue ''RABBITMQ'', Provider = StringValue ''aws'',
      InstanceSize = StringValue ''SMALL'', Region = StringValue ''eu-west-2'',
      Tags = SetValue StringType [''blue''], NetworkPolicyIds = SetValue StringType [''np-1''],
      Dedicated = BoolValue True, Shared = BoolNull, Status = StringUnknown,
      DataPlaneId = StringUnknown, LastUpdated = StringUnknown, Created = StringUnknown,
      Metadata = ObjectUnknown metadata_attr_types\<rparr>"

definition demo_api :: "MdsCluster list \<Rightarrow> (error + MdsCluster) list \<Rightarrow> api" where
  "demo_api clusters answers =
     \<lparr>CreateMdsCluster = None, GetMdsClusters = Inr clusters, GetMdsCluster = answers,
      DeleteMdsCluster = None\<rparr>"

text \<open>
  A framework whose set conversion reports an error on duplicate elements, and the
  cluster in the status \<open>READY\<close> with a tag that occurs twice.
\<close>

definition strict_framework :: "'s framework" where
  "strict_framework =
     \<lparr>ListValueFrom = (\<lambda>t xs. (ListValue t xs, [])),
      SetValueFrom = (\<lambda>t xs. if distinct xs then (SetValue t xs, [])
                              else (SetUnknown t,
                                    [Diagnostic SeverityError ''Duplicate Set Element''
                                       ''This attribute contains duplicate values''])),
      ObjectValueFrom_diags = (\<lambda>ats m. []),
      StateSet_diags = (\<lambda>s. []),
      String_v = ValueString\<rparr>"

definition demo_cluster_duplicate_tags :: MdsCluster where
  "demo_cluster_duplicate_tags = (demo_cluster ''READY'')\<lparr>cl_Tags := [''green'', ''green'']\<rparr>"

text \<open>The state that \<open>saveFromResponse\<close> makes of \<open>demo_plan\<close> and \<open>demo_cluster status\<close>.\<close>

definition demo_saved :: "string \<Rightarrow> clusterResourceModel" where
  "demo_saved status =
     demo_plan\<lparr>ID := StringValue ''c-1'', Name := StringValue ''demo'',
          ServiceType := StringValue ''RABBITMQ'', Provider := StringValue ''aws'',
          InstanceSize := StringValue ''SMALL'', Region := StringValue ''eu-west-2'',
          Status := StringValue status, OrgId := StringValue ''org-1'',
          DataPlaneId := StringValue ''dp-1'', LastUpdated := StringValue ''t1'',
          Created := StringValue ''t0'',
          Metadata := ObjectValue metadata_attr_types
             \<lparr>ManagerUri = StringValue [], ConnectionUri = StringValue [],
               MetricsEndpoints = ListNull StringType\<rparr>,
          Tags := SetValue StringType [''blue'']\<rparr>"





text \<open>
  A response of the service roles with two roles, a configuration, and a service that
  knows the role type \<open>RABBITMQ\<close> only.
\<close>

definition demo_admin :: MdsRole where
  "demo_admin =
     \<lparr>rl_RoleID = ''r-1'', rl_Name = ''admin'', rl_Description = ''all'', rl_Type = ''RABBITMQ'',
      rl_Permissions =
        [\<lparr>pm_Name = ''read'', pm_Description = ''read'', pm_PermissionId = ''p-1''\<rparr>,
         \<lparr>pm_Name = ''write'', pm_Description = ''write'', pm_PermissionId = ''p-2''\<rparr>]\<rparr>"

definition demo_monitoring :: MdsRole where
  "demo_monitoring =
     \<lparr>rl_RoleID = ''r-2'', rl_Name = ''monitoring'', rl_Description = ''metrics'',
      rl_Type = ''RABBITMQ'',
      rl_Permissions =
        [\<lparr>pm_Name = ''monitor'', pm_Description = ''monitor'', pm_PermissionId = ''p-3''\<rparr>]\<rparr>"

definition demo_roles_response :: "MdsServiceRoleDTO list \<Rightarrow> MdsRolesResponse" where
  "demo_roles_response dtos = \<lparr>Embedded = \<lparr>ServiceRoleDTO = dtos\<rparr>\<rparr>"

definition demo_roles_service ::
  "MdsServiceRoleDTO list \<Rightarrow> MDSRolesQuery \<Rightarrow> error + MdsRolesResponse" where
  "demo_roles_service dtos query =
     (if query_Type query = ''RABBITMQ'' then Inr (demo_roles_response dtos)
      else Inl (OtherError ''unknown role type''))"

definition demo_roles_config :: "string \<Rightarrow> ServiceRolesDataSourceModel" where
  "demo_roles_config type = \<lparr>Roles = [], Type = StringValue type\<rparr>"

text \<open>
  The entries that \<open>Read\<close> appends for the response with the roles \<open>demo_admin\<close> and
  \<open>demo_monitoring\<close>.
\<close>

definition demo_roles_saved :: "ServiceRolesModel list" where
  "demo_roles_saved =
     [roleList_literal demo_admin (map permission_literal (rl_Permissions demo_admin)),
      roleList_literal demo_monitoring (map permission_literal (rl_Permissions demo_admin)),
      roleList_literal demo_admin
        (map permission_literal (rl_Permissions demo_admin @ rl_Permissions demo_monitoring)),
      roleList_literal demo_monitoring
        (map permission_literal (rl_Permissions demo_admin @ rl_Permissions demo_monitoring))]"

section \<open>Properties\<close>

subsection \<open>Diagnostics\<close>

lemma HasError_Append: "HasError (Append diags new) = (HasError diags \<or> HasError new)"
proof (induction new arbitrary: diags)
  case Nil
  show ?case by (simp add: HasError_def)
next
  case (Cons d ds)
  show ?case
  proof (cases "d \<in> set diags")
    case True
    then have "Severity d = SeverityError \<Longrightarrow> HasError diags"
      by (auto simp: HasError_def list_ex_iff)
    with True Cons.IH [of diags] show ?thesis
      by (auto simp: HasError_def)
  next
    case False
    with Cons.IH [of "diags @ [d]"] show ?thesis
      by (auto simp: HasError_def)
  qed
qed

lemma HasError_AddError: "HasError (AddError diags summary detail)"
  unfolding AddError_def HasError_Append by (simp add: HasError_def)

lemma HasError_Append_Nil: "HasError (Append [] ds) = HasError ds"
  unfolding HasError_Append by (simp add: HasError_def)

subsection \<open>saveFromResponse\<close>

lemma exec_log: "snd (exec afs sl) = snd sl @ map fst afs"
  by (induction afs arbitrary: sl) (simp_all add: assign_def)

lemma exec_strings_fields:
  "ID (fst (exec (saveFromResponse_strings cluster) sl)) = StringValue (cl_ID cluster)"
  "Name (fst (exec (saveFromResponse_strings cluster) sl)) = StringValue (cl_Name cluster)"
  "ServiceType (fst (exec (saveFromResponse_strings cluster) sl)) = StringValue (cl_ServiceType cluster)"
  "Provider (fst (exec (saveFromResponse_strings cluster) sl)) = StringValue (cl_Provider cluster)"
  "InstanceSize (fst (exec (saveFromResponse_strings cluster) sl)) = StringValue (cl_InstanceSize cluster)"
  "Region (fst (exec (saveFromResponse_strings cluster) sl)) = StringValue (cl_Region cluster)"
  "Status (fst (exec (saveFromResponse_strings cluster) sl)) = StringValue (cl_Status cluster)"
  "OrgId (fst (exec (saveFromResponse_strings cluster) sl)) = StringValue (cl_OrgId cluster)"
  "DataPlaneId (fst (exec (saveFromResponse_strings cluster) sl)) = StringValue (cl_DataPlaneId cluster)"
  "LastUpdated (fst (exec (saveFromResponse_strings cluster) sl)) = StringValue (cl_LastUpdated cluster)"
  "Created (fst (exec (saveFromResponse_strings cluster) sl)) = StringValue (cl_Created cluster)"
  by (simp_all add: saveFromResponse_strings_def assign_def)

lemma exec_strings_frame:
  "Tags (fst (exec (saveFromResponse_strings cluster) sl)) = Tags (fst sl)"
  "NetworkPolicyIds (fst (exec (saveFromResponse_strings cluster) sl)) = NetworkPolicyIds (fst sl)"
  "Dedicated (fst (exec (saveFromResponse_strings cluster) sl)) = Dedicated (fst sl)"
  "Shared (fst (exec (saveFromResponse_strings cluster) sl)) = Shared (fst sl)"
  "Metadata (fst (exec (saveFromResponse_strings cluster) sl)) = Metadata (fst sl)"
  "clusterResourceModel.more (fst (exec (saveFromResponse_strings cluster) sl)) = clusterResourceModel.more (fst sl)"
  by (simp_all add: saveFromResponse_strings_def assign_def)

lemma saveFromResponse_shape:
  assumes "saveFromResponse fw diagnostics state0 cluster = (rc, diagnostics', state', written)"
  shows "state' = fst (exec (saveFromResponse_strings cluster) (state0, []))
   \<or> (\<exists>obj. state' = (fst (exec (saveFromResponse_strings cluster) (state0, [])))\<lparr>Metadata := obj\<rparr>)
   \<or> (\<exists>obj l. state' = (fst (exec (saveFromResponse_strings cluster) (state0, [])))\<lparr>Metadata := obj, Tags := l\<rparr>)"
  using assms unfolding saveFromResponse_def assign_def Let_def
  by (auto split: sum.splits prod.splits if_splits)

lemma saveFromResponse_Status:
  assumes "saveFromResponse fw diagnostics state0 cluster = (rc, diagnostics', state', written)"
  shows "Status state' = StringValue (cl_Status cluster)"
    and "ID state' = StringValue (cl_ID cluster)"
  using saveFromResponse_shape [OF assms] by (auto simp: exec_strings_fields)

lemma saveFromResponse_zero_no_error:
  assumes "saveFromResponse fw diagnostics state0 cluster = (0, diagnostics', state', written)"
  shows "\<not> HasError diagnostics'"
  using assms unfolding saveFromResponse_def Let_def
  by (auto split: sum.splits prod.splits if_splits)

lemma saveFromResponse_demo:
  "saveFromResponse quiet_framework [] demo_plan (demo_cluster status)
     = (0, [],
        demo_plan\<lparr>ID := StringValue ''c-1'', Name := StringValue ''demo'',
          ServiceType := StringValue ''RABBITMQ'', Provider := StringValue ''aws'',
          InstanceSize := StringValue ''SMALL'', Region := StringValue ''eu-west-2'',
          Status := StringValue status, OrgId := StringValue ''org-1'',
          DataPlaneId := StringValue ''dp-1'', LastUpdated := StringValue ''t1'',
          Created := StringValue ''t0'',
          Metadata := ObjectValue metadata_attr_types
             \<lparr>ManagerUri = StringValue [], ConnectionUri = StringValue [],
               MetricsEndpoints = ListNull StringType\<rparr>,
          Tags := SetValue StringType [''blue'']\<rparr>,
        [''id'', ''name'', ''service_type'', ''cloud_provider'', ''instance_size'', ''region'',
         ''status'', ''org_id'', ''data_plane_id'', ''last_updated'', ''created'', ''metadata'',
         ''tags''])"
  by (simp add: saveFromResponse_def saveFromResponse_strings_def
        saveFromResponse_metadataModel_def ObjectValueFrom_def assign_def HasError_def
        quiet_framework_def demo_cluster_def demo_plan_def)

lemma saveFromResponse_demo_saved:
  "saveFromResponse quiet_framework [] demo_plan (demo_cluster status)
     = (0, [], demo_saved status,
        [''id'', ''name'', ''service_type'', ''cloud_provider'', ''instance_size'', ''region'',
         ''status'', ''org_id'', ''data_plane_id'', ''last_updated'', ''created'', ''metadata'',
         ''tags''])"
  unfolding demo_saved_def by (rule saveFromResponse_demo)

lemma StateSet_quiet: "StateSet_diags quiet_framework s = []"
  by (simp add: quiet_framework_def)

lemma cl_Status_demo: "cl_Status (demo_cluster status) = status"
  by (simp add: demo_cluster_def)

lemma exec_strings_twice:
  "fst (exec (saveFromResponse_strings cluster)
          (fst (exec (saveFromResponse_strings cluster) sl), log))
   = fst (exec (saveFromResponse_strings cluster) sl)"
  by (simp add: saveFromResponse_strings_def assign_def)

lemma exec_strings_Metadata:
  "fst (exec (saveFromResponse_strings cluster) (st\<lparr>Metadata := obj\<rparr>, log))
   = (fst (exec (saveFromResponse_strings cluster) (st, log)))\<lparr>Metadata := obj\<rparr>"
  by (simp add: saveFromResponse_strings_def assign_def)


lemma exec_strings_log_irrelevant:
  "fst (exec (saveFromResponse_strings cluster) (st, log))
   = fst (exec (saveFromResponse_strings cluster) (st, []))"
  by (simp add: saveFromResponse_strings_def assign_def)

lemma exec_strings_pairD:
  "exec (saveFromResponse_strings c) (s, l) = (s', w) \<Longrightarrow>
   s' = fst (exec (saveFromResponse_strings c) (s, []))
   \<and> w = l @ map fst (saveFromResponse_strings c)"
  using exec_log [of "saveFromResponse_strings c" "(s, l)"]
    exec_strings_log_irrelevant [of c s l]
  by simp

lemma saveFromResponse_failed:
  assumes "saveFromResponse fw d s c = (rc, d', s', w)" and "rc \<noteq> 0"
  shows "rc = 1 \<and> HasError d' \<and> fst (exec (saveFromResponse_strings c) (s', [])) = s'"
  using assms
  unfolding saveFromResponse_def saveFromResponse_metadataModel_def Let_def assign_def
  by (auto simp: exec_strings_twice exec_strings_Metadata
        split: option.splits prod.splits if_splits sum.splits simp del: Append.simps
        dest!: exec_strings_pairD)





lemma saveFromResponse_strings_names:
  "map fst (saveFromResponse_strings c) =
     [''id'', ''name'', ''service_type'', ''cloud_provider'', ''instance_size'', ''region'',
      ''status'', ''org_id'', ''data_plane_id'', ''last_updated'', ''created'']"
  by (simp add: saveFromResponse_strings_def)

lemma saveFromResponse_log:
  assumes "saveFromResponse fw d s c = (rc, d', s', w)"
  shows "(w = map fst (saveFromResponse_strings c)
          \<or> w = map fst (saveFromResponse_strings c) @ [''metadata'']
          \<or> w = map fst (saveFromResponse_strings c) @ [''metadata'', ''tags''])
         \<and> (rc = 0 \<longrightarrow> w = map fst (saveFromResponse_strings c) @ [''metadata'', ''tags''])"
  using assms
  unfolding saveFromResponse_def saveFromResponse_metadataModel_def Let_def assign_def
  by (auto simp: exec_log split: option.splits prod.splits if_splits sum.splits
        simp del: Append.simps)

lemma saveFromResponse_frame:
  assumes "saveFromResponse fw d s c = (rc, d', s', w)"
  shows "NetworkPolicyIds s' = NetworkPolicyIds s" and "Dedicated s' = Dedicated s"
    and "Shared s' = Shared s"
  using saveFromResponse_shape [OF assms] by (auto simp: exec_strings_frame)

lemma saveFromResponse_strings_copied:
  assumes "saveFromResponse fw d s c = (rc, d', s', w)"
  shows "ID s' = StringValue (cl_ID c) \<and> Name s' = StringValue (cl_Name c)
    \<and> ServiceType s' = StringValue (cl_ServiceType c)
    \<and> Provider s' = StringValue (cl_Provider c)
    \<and> InstanceSize s' = StringValue (cl_InstanceSize c)
    \<and> Region s' = StringValue (cl_Region c) \<and> Status s' = StringValue (cl_Status c)
    \<and> OrgId s' = StringValue (cl_OrgId c) \<and> DataPlaneId s' = StringValue (cl_DataPlaneId c)
    \<and> LastUpdated s' = StringValue (cl_LastUpdated c)
    \<and> Created s' = StringValue (cl_Created c)"
  using saveFromResponse_shape [OF assms] by (auto simp: exec_strings_fields)

lemma saveFromResponse_Tags_Metadata:
  assumes "saveFromResponse fw d s c = (0, d', s', w)"
  shows "Tags s' = fst (SetValueFrom fw StringType (cl_Tags c))"
    and "cl_Metadata c = None \<Longrightarrow>
         Metadata s' = ObjectValue (AttributeTypes (Metadata s))
           \<lparr>ManagerUri = StringValue [], ConnectionUri = StringValue [],
            MetricsEndpoints = ListNull StringType\<rparr>"
    and "cl_Metadata c = Some md \<Longrightarrow>
         Metadata s' = ObjectValue (AttributeTypes (Metadata s))
           \<lparr>ManagerUri = StringValue (md_ManagerUri md),
            ConnectionUri = StringValue (md_ConnectionUri md),
            MetricsEndpoints = fst (ListValueFrom fw StringType (md_MetricsEndpoints md))\<rparr>"
  using assms
  unfolding saveFromResponse_def saveFromResponse_metadataModel_def ObjectValueFrom_def
    Let_def assign_def
  by (auto simp: exec_strings_frame HasError_Append
        split: option.splits prod.splits if_splits sum.splits simp del: Append.simps)


lemma saveFromResponse_metadata_absent:
  assumes "saveFromResponse fw d s c = (rc, d', s', w)" and "cl_Metadata c = None"
  shows "if HasError d
            \<or> HasError (ObjectValueFrom_diags fw (AttributeTypes (Metadata s))
                  \<lparr>ManagerUri = StringValue [], ConnectionUri = StringValue [],
                   MetricsEndpoints = ListNull StringType\<rparr>)
         then ''metadata'' \<notin> set w \<and> Metadata s' = Metadata s \<and> rc = 1
         else ''metadata'' \<in> set w
              \<and> Metadata s' = ObjectValue (AttributeTypes (Metadata s))
                    \<lparr>ManagerUri = StringValue [], ConnectionUri = StringValue [],
                     MetricsEndpoints = ListNull StringType\<rparr>"
  using assms
  unfolding saveFromResponse_def saveFromResponse_metadataModel_def ObjectValueFrom_def
    Let_def assign_def
  by (auto simp: exec_strings_frame HasError_Append saveFromResponse_strings_names
        split: prod.splits if_splits simp del: Append.simps dest!: exec_strings_pairD)

lemma saveFromResponse_metadata_present:
  assumes "saveFromResponse fw d s c = (rc, d', s', w)" and "cl_Metadata c = Some md"
  shows "if HasError d
            \<or> HasError (snd (ListValueFrom fw StringType (md_MetricsEndpoints md)))
            \<or> HasError (ObjectValueFrom_diags fw (AttributeTypes (Metadata s))
                  \<lparr>ManagerUri = StringValue (md_ManagerUri md),
                   ConnectionUri = StringValue (md_ConnectionUri md),
                   MetricsEndpoints =
                     fst (ListValueFrom fw StringType (md_MetricsEndpoints md))\<rparr>)
         then ''metadata'' \<notin> set w \<and> Metadata s' = Metadata s \<and> rc = 1
         else ''metadata'' \<in> set w
              \<and> Metadata s' = ObjectValue (AttributeTypes (Metadata s))
                    \<lparr>ManagerUri = StringValue (md_ManagerUri md),
                     ConnectionUri = StringValue (md_ConnectionUri md),
                     MetricsEndpoints =
                       fst (ListValueFrom fw StringType (md_MetricsEndpoints md))\<rparr>"
  using assms
  unfolding saveFromResponse_def saveFromResponse_metadataModel_def ObjectValueFrom_def
    Let_def assign_def
  by (auto simp: exec_strings_frame HasError_Append saveFromResponse_strings_names
        split: prod.splits if_splits simp del: Append.simps dest!: exec_strings_pairD)

lemma saveFromResponse_tags:
  assumes "saveFromResponse fw d s c = (rc, d', s', w)"
  shows "(''tags'' \<in> set w) = (rc = 0)"
    and "rc = 0 \<longleftrightarrow> ''metadata'' \<in> set w
                   \<and> \<not> HasError (snd (SetValueFrom fw StringType (cl_Tags c)))"
    and "rc \<noteq> 0 \<Longrightarrow> rc = 1 \<and> Tags s' = Tags s \<and> HasError d'"
  using assms
  unfolding saveFromResponse_def saveFromResponse_metadataModel_def ObjectValueFrom_def
    Let_def assign_def
  by (auto simp: exec_strings_frame HasError_Append saveFromResponse_strings_names exec_log
        split: option.splits prod.splits if_splits sum.splits simp del: Append.simps
        dest!: exec_strings_pairD)

lemma saveFromResponse_demo_duplicate_tags:
  "saveFromResponse (strict_framework :: clusterResourceModel framework) [] demo_plan
       demo_cluster_duplicate_tags
     = (1, [Diagnostic SeverityError ''Duplicate Set Element''
              ''This attribute contains duplicate values''],
        demo_saved ''READY'',
        [''id'', ''name'', ''service_type'', ''cloud_provider'', ''instance_size'', ''region'',
         ''status'', ''org_id'', ''data_plane_id'', ''last_updated'', ''created'',
         ''metadata''])"
  by (simp add: saveFromResponse_def saveFromResponse_strings_def
        saveFromResponse_metadataModel_def ObjectValueFrom_def assign_def HasError_def
        strict_framework_def demo_cluster_duplicate_tags_def demo_cluster_def demo_plan_def
        demo_saved_def)

lemma cl_Status_duplicate_tags: "cl_Status demo_cluster_duplicate_tags = ''READY''"
  by (simp add: demo_cluster_duplicate_tags_def demo_cluster_def)

subsection \<open>The polling loops\<close>

lemma delete_poll_prefix:
  "delete_poll (map Inr cs @ rs) n = delete_poll rs (n + length cs)"
  by (induction cs arbitrary: n) simp_all

lemma create_poll_prefix:
  "\<forall>c \<in> set (c0 # cs). cl_Status c \<noteq> ''READY'' \<and> cl_Status c \<noteq> ''FAILED'' \<Longrightarrow>
   create_poll c0 (map Inr cs @ r # rs) n =
     (case r of Inl err \<Rightarrow> Some (Inl err, Suc (n + length cs))
      | Inr fetched \<Rightarrow> create_poll fetched rs (Suc (n + length cs)))"
  by (induction cs arbitrary: c0 n) (simp_all split: sum.splits)

lemma create_poll_terminal:
  "create_poll c rs n = Some (Inr c', m) \<Longrightarrow>
   cl_Status c' = ''READY'' \<or> cl_Status c' = ''FAILED''"
  by (induction c rs n rule: create_poll.induct) (auto split: if_splits sum.splits)

lemma create_poll_reaches:
  assumes "\<forall>c \<in> set (butlast (c0 # cs)). cl_Status c \<noteq> ''READY'' \<and> cl_Status c \<noteq> ''FAILED''"
    and "cl_Status (last (c0 # cs)) = ''READY'' \<or> cl_Status (last (c0 # cs)) = ''FAILED''"
  shows "create_poll c0 (map Inr cs @ rest) n = Some (Inr (last (c0 # cs)), n + length cs)"
  using assms
proof (induction cs arbitrary: c0 n)
  case Nil
  then show ?case by (cases rest) auto
next
  case (Cons c cs)
  from Cons.prems have "cl_Status c0 \<noteq> ''READY'' \<and> cl_Status c0 \<noteq> ''FAILED''"
    by simp
  moreover have "create_poll c (map Inr cs @ rest) (Suc n) = Some (Inr (last (c # cs)), Suc n + length cs)"
    using Cons.prems by (intro Cons.IH) (auto split: if_splits)
  ultimately show ?case by simp
qed

lemma create_poll_pending:
  "\<forall>c \<in> set (c0 # cs). cl_Status c \<noteq> ''READY'' \<and> cl_Status c \<noteq> ''FAILED'' \<Longrightarrow>
   create_poll c0 (map Inr cs) n = None"
  by (induction cs arbitrary: c0 n) simp_all

lemma delete_poll_found:
  "delete_poll rs n = Some (None, m) \<Longrightarrow>
   \<exists>k msg. k < length rs \<and> rs ! k = Inl (ApiError StatusNotFound msg) \<and> m = Suc (n + k)"
proof (induction rs arbitrary: n)
  case Nil
  then show ?case by simp
next
  case (Cons r rs)
  show ?case
  proof (cases r)
    case (Inl err)
    with Cons.prems obtain msg where "err = ApiError StatusNotFound msg" and "m = Suc n"
      by (auto split: error.splits if_splits)
    with Inl have "0 < length (r # rs) \<and> (r # rs) ! 0 = Inl (ApiError StatusNotFound msg) \<and> m = Suc (n + 0)"
      by simp
    then show ?thesis by blast
  next
    case (Inr c)
    with Cons.prems have "delete_poll rs (Suc n) = Some (None, m)" by simp
    from Cons.IH [OF this] obtain k msg where
      "k < length rs" "rs ! k = Inl (ApiError StatusNotFound msg)" "m = Suc (Suc n + k)"
      by blast
    then have "Suc k < length (r # rs) \<and> (r # rs) ! Suc k = Inl (ApiError StatusNotFound msg)
               \<and> m = Suc (n + Suc k)"
      by simp
    then show ?thesis by blast
  qed
qed

lemma Create_settled:
  assumes "\<not> HasError plan_diags" and "CreateMdsCluster client = None"
    and "GetMdsClusters client = Inr (c0 # others)"
    and "\<forall>c \<in> set (butlast (c0 # cs)). cl_Status c \<noteq> ''READY'' \<and> cl_Status c \<noteq> ''FAILED''"
    and "cl_Status c0 \<noteq> ''FAILED''"
    and "cl_Status (last (c0 # cs)) = ''READY'' \<or> cl_Status (last (c0 # cs)) = ''FAILED''"
    and "GetMdsCluster client = map Inr cs @ rest"
    and "saveFromResponse fw (Append [] plan_diags) plan (last (c0 # cs))
           = (0, diagnostics, state, written)"
    and "\<not> HasError (StateSet_diags fw state)"
  shows "Create fw client plan plan_diags =
           Some \<lparr>Diagnostics = Append diagnostics (StateSet_diags fw state),
                 State = Some state, fetches = length (c0 # cs)\<rparr>"
proof -
  have "create_poll c0 (GetMdsCluster client) 1 = Some (Inr (last (c0 # cs)), 1 + length cs)"
    unfolding assms(7) using assms(4,6) by (rule create_poll_reaches)
  then show ?thesis
    using assms(1-3,5,8,9) by (simp add: Create_def HasError_Append_Nil del: last.simps)
qed

lemma Create_polled:
  assumes "\<not> HasError plan_diags" and "CreateMdsCluster client = None"
    and "GetMdsClusters client = Inr (c0 # others)"
    and "\<forall>c \<in> set (butlast (c0 # cs)). cl_Status c \<noteq> ''READY'' \<and> cl_Status c \<noteq> ''FAILED''"
    and "cl_Status c0 \<noteq> ''FAILED''"
    and "cl_Status (last (c0 # cs)) = ''READY'' \<or> cl_Status (last (c0 # cs)) = ''FAILED''"
    and "GetMdsCluster client = map Inr cs @ rest"
    and "saveFromResponse fw (Append [] plan_diags) plan (last (c0 # cs))
           = (rc, diagnostics, state, written)"
  shows "Create fw client plan plan_diags =
           Some \<lparr>Diagnostics = (if rc = 0 then Append diagnostics (StateSet_diags fw state)
                                else diagnostics),
                 State = (if rc = 0 \<and> \<not> HasError (StateSet_diags fw state) then Some state
                          else None),
                 fetches = length (c0 # cs)\<rparr>"
proof -
  have "create_poll c0 (GetMdsCluster client) 1 = Some (Inr (last (c0 # cs)), 1 + length cs)"
    unfolding assms(7) using assms(4,6) by (rule create_poll_reaches)
  then show ?thesis
    using assms(1-3,5,8) by (simp add: Create_def HasError_Append_Nil del: last.simps)
qed

lemma READY_first_not_FAILED:
  assumes "\<forall>c \<in> set (butlast (c0 # cs)). cl_Status c \<noteq> ''READY'' \<and> cl_Status c \<noteq> ''FAILED''"
    and "cl_Status (last (c0 # cs)) = ''READY''"
  shows "cl_Status c0 \<noteq> ''FAILED''"
proof (cases cs)
  case Nil
  with assms(2) show ?thesis by simp
next
  case (Cons c cs')
  with assms(1) show ?thesis by simp
qed

lemma Create_demo_ready3:
  "Create quiet_framework
     (demo_api [demo_cluster ''PENDING'']
        [Inr (demo_cluster ''PENDING''), Inr (demo_cluster ''READY''),
         Inr (demo_cluster ''UPDATING'')])
     demo_plan []
   = Some \<lparr>Diagnostics = [], State = Some (demo_saved ''READY''), fetches = 3\<rparr>"
  using Create_polled
    [where fw = quiet_framework and plan = demo_plan and plan_diags = "[]"
       and client = "demo_api [demo_cluster ''PENDING'']
                       [Inr (demo_cluster ''PENDING''), Inr (demo_cluster ''READY''),
                        Inr (demo_cluster ''UPDATING'')]"
       and ?c0.0 = "demo_cluster ''PENDING''" and others = "[]"
       and cs = "[demo_cluster ''PENDING'', demo_cluster ''READY'']"
       and rest = "[Inr (demo_cluster ''UPDATING'')]"
       and rc = 0 and diagnostics = "[]" and state = "demo_saved ''READY''"
       and written = "[''id'', ''name'', ''service_type'', ''cloud_provider'',
         ''instance_size'', ''region'', ''status'', ''org_id'', ''data_plane_id'',
         ''last_updated'', ''created'', ''metadata'', ''tags'']"]
  by (simp add: demo_api_def cl_Status_demo StateSet_quiet saveFromResponse_demo_saved
        HasError_def)

lemma Create_demo_duplicate_tags:
  "Create strict_framework
     (demo_api [demo_cluster ''PENDING'']
        [Inr (demo_cluster ''PENDING''), Inr demo_cluster_duplicate_tags])
     demo_plan []
   = Some \<lparr>Diagnostics = [Diagnostic SeverityError ''Duplicate Set Element''
                             ''This attribute contains duplicate values''],
           State = None, fetches = 3\<rparr>"
  using Create_polled
    [where fw = strict_framework and plan = demo_plan and plan_diags = "[]"
       and client = "demo_api [demo_cluster ''PENDING'']
                       [Inr (demo_cluster ''PENDING''), Inr demo_cluster_duplicate_tags]"
       and ?c0.0 = "demo_cluster ''PENDING''" and others = "[]"
       and cs = "[demo_cluster ''PENDING'', demo_cluster_duplicate_tags]" and rest = "[]"
       and rc = 1
       and diagnostics = "[Diagnostic SeverityError ''Duplicate Set Element''
                             ''This attribute contains duplicate values'']"
       and state = "demo_saved ''READY''"
       and written = "[''id'', ''name'', ''service_type'', ''cloud_provider'',
         ''instance_size'', ''region'', ''status'', ''org_id'', ''data_plane_id'',
         ''last_updated'', ''created'', ''metadata'']"]
  by (simp add: demo_api_def cl_Status_demo cl_Status_duplicate_tags
        saveFromResponse_demo_duplicate_tags HasError_def)

subsection \<open>Create: a failure status\<close>

text \<open>
  C1: a fetch sequence that ends in the status \<open>FAILED\<close> should end \<open>Create\<close> with the
  diagnostic of a failed creation, no state written, and no fetch after that status. The
  source does so only when the first fetch, the query by name, shows \<open>FAILED\<close>. When
  the status turns \<open>FAILED\<close> during polling, the loop ends without a further fetch, but
  nothing checks the status after the loop: for the sequence pending, failed the
  operation makes two fetches, reports no diagnostic and stores the state with the status
  \<open>FAILED\<close>.
\<close>

theorem Create_failed_while_polling:
  "Create quiet_framework (demo_api [demo_cluster ''FAILED''] []) demo_plan []
     = Some \<lparr>Diagnostics =
               [Diagnostic SeverityError ''Error creating cluster''
                  (''Cluster creation failed with the status 'FAILED'' @ [CHR 0x27])],
             State = None, fetches = 1\<rparr>
   \<and> Create quiet_framework
       (demo_api [demo_cluster ''PENDING''] [Inr (demo_cluster ''FAILED'')]) demo_plan []
     = Some \<lparr>Diagnostics = [], State = Some (demo_saved ''FAILED''), fetches = 2\<rparr>
   \<and> Status (demo_saved ''FAILED'') = StringValue ''FAILED''"
proof -
  have first: "Create quiet_framework (demo_api [demo_cluster ''FAILED''] []) demo_plan []
     = Some \<lparr>Diagnostics =
               [Diagnostic SeverityError ''Error creating cluster''
                  (''Cluster creation failed with the status 'FAILED'' @ [CHR 0x27])],
             State = None, fetches = 1\<rparr>"
    by (simp add: Create_def demo_api_def cl_Status_demo HasError_def AddError_def)
  have later: "Create quiet_framework
       (demo_api [demo_cluster ''PENDING''] [Inr (demo_cluster ''FAILED'')]) demo_plan []
     = Some \<lparr>Diagnostics = Append [] (StateSet_diags quiet_framework (demo_saved ''FAILED'')),
             State = Some (demo_saved ''FAILED''),
             fetches = length [demo_cluster ''PENDING'', demo_cluster ''FAILED'']\<rparr>"
    by (rule Create_settled [where others = "[]" and rest = "[]"])
       (simp_all add: demo_api_def cl_Status_demo StateSet_quiet saveFromResponse_demo_saved
          HasError_def)
  have "Status (demo_saved ''FAILED'') = StringValue ''FAILED''"
    by (simp add: demo_saved_def)
  with first later show ?thesis
    by (simp add: StateSet_quiet)
qed

subsection \<open>Create: a ready status\<close>

text \<open>
  C2, as the source has it: for every fetch sequence \<open>c0 # cs\<close> (the answer to the
  query by name, then the answers of \<open>GetMdsCluster\<close>) whose statuses are pending up to
  the last and \<open>READY\<close> at the last, \<open>Create\<close> returns after exactly
  \<open>length (c0 # cs)\<close> fetches; the answers \<open>rest\<close> that the service would still give
  are not asked for. What it returns depends on \<open>saveFromResponse\<close> and \<open>State.Set\<close>
  for the last fetched cluster. When \<open>saveFromResponse\<close> returns 0 and \<open>State.Set\<close>
  reports no error, the result has no error diagnostic and the stored state is the one
  \<open>saveFromResponse\<close> makes of the plan and the last fetched cluster, with the status
  \<open>READY\<close>. Otherwise the result has an error diagnostic and no state. For pending,
  pending, ready this is three fetches in both cases.
\<close>

theorem Create_ready_returns:
  assumes "\<not> HasError plan_diags" and "CreateMdsCluster client = None"
    and "GetMdsClusters client = Inr (c0 # others)"
    and "\<forall>c \<in> set (butlast (c0 # cs)). cl_Status c \<noteq> ''READY'' \<and> cl_Status c \<noteq> ''FAILED''"
    and "cl_Status (last (c0 # cs)) = ''READY''"
    and "GetMdsCluster client = map Inr cs @ rest"
  shows "\<exists>r. Create fw client plan plan_diags = Some r
           \<and> fetches r = length (c0 # cs)
           \<and> (case saveFromResponse fw (Append [] plan_diags) plan (last (c0 # cs)) of
                (rc, diagnostics, state, written) \<Rightarrow>
                  if rc = 0 \<and> \<not> HasError (StateSet_diags fw state)
                  then State r = Some state \<and> \<not> HasError (Diagnostics r)
                       \<and> Diagnostics r = Append diagnostics (StateSet_diags fw state)
                       \<and> Status state = StringValue ''READY''
                       \<and> ID state = StringValue (cl_ID (last (c0 # cs)))
                  else State r = None \<and> HasError (Diagnostics r))"
proof -
  obtain rc diagnostics state written where
    save: "saveFromResponse fw (Append [] plan_diags) plan (last (c0 # cs))
             = (rc, diagnostics, state, written)"
    by (cases "saveFromResponse fw (Append [] plan_diags) plan (last (c0 # cs))") auto
  have c0: "cl_Status c0 \<noteq> ''FAILED''"
    using assms(4,5) by (rule READY_first_not_FAILED)
  have terminal: "cl_Status (last (c0 # cs)) = ''READY''
                    \<or> cl_Status (last (c0 # cs)) = ''FAILED''"
    using assms(5) by blast
  have run: "Create fw client plan plan_diags =
           Some \<lparr>Diagnostics = (if rc = 0 then Append diagnostics (StateSet_diags fw state)
                                else diagnostics),
                 State = (if rc = 0 \<and> \<not> HasError (StateSet_diags fw state) then Some state
                          else None),
                 fetches = length (c0 # cs)\<rparr>"
    using assms(1-4) c0 terminal assms(6) save by (rule Create_polled)
  show ?thesis
  proof (cases "rc = 0")
    case True
    with save have "\<not> HasError diagnostics"
      using saveFromResponse_zero_no_error by blast
    moreover have "Status state = StringValue ''READY''"
      using saveFromResponse_Status(1) [OF save] assms(5) by simp
    moreover have "ID state = StringValue (cl_ID (last (c0 # cs)))"
      using saveFromResponse_Status(2) [OF save] by simp
    ultimately show ?thesis
      using run save True by (simp add: HasError_Append del: last.simps)
  next
    case False
    from saveFromResponse_failed [OF save False] have "HasError diagnostics" by simp
    with run save False show ?thesis
      by (simp del: last.simps)
  qed
qed

text \<open>
  C2 as stated fails: it promises the success for every sequence that ends in \<open>READY\<close>.
  For the sequence pending, pending, ready whose last cluster has a tag twice, under a
  framework that rejects duplicate set elements, \<open>saveFromResponse\<close> returns 1 at the
  conversion of the tags and \<open>Create\<close> ends after three fetches with an error
  diagnostic and no state.
\<close>

theorem Create_ready_returns_counterexample:
  "cl_Status (demo_cluster ''PENDING'') = ''PENDING''
   \<and> cl_Status demo_cluster_duplicate_tags = ''READY''
   \<and> Create strict_framework
       (demo_api [demo_cluster ''PENDING'']
          [Inr (demo_cluster ''PENDING''), Inr demo_cluster_duplicate_tags])
       demo_plan []
     = Some \<lparr>Diagnostics = [Diagnostic SeverityError ''Duplicate Set Element''
                               ''This attribute contains duplicate values''],
             State = None, fetches = 3\<rparr>
   \<and> HasError [Diagnostic SeverityError ''Duplicate Set Element''
                  ''This attribute contains duplicate values'']"
  by (simp add: Create_demo_duplicate_tags cl_Status_demo cl_Status_duplicate_tags HasError_def)

theorem Create_ready_returns_witness:
  "Create quiet_framework
     (demo_api [demo_cluster ''PENDING'']
        [Inr (demo_cluster ''PENDING''), Inr (demo_cluster ''READY''),
         Inr (demo_cluster ''UPDATING'')])
     demo_plan []
   = Some \<lparr>Diagnostics = [], State = Some (demo_saved ''READY''), fetches = 3\<rparr>
   \<and> Status (demo_saved ''READY'') = StringValue ''READY''
   \<and> ID (demo_saved ''READY'') = StringValue ''c-1''
   \<and> Create strict_framework
       (demo_api [demo_cluster ''PENDING'']
          [Inr (demo_cluster ''PENDING''), Inr demo_cluster_duplicate_tags])
       demo_plan []
     = Some \<lparr>Diagnostics = [Diagnostic SeverityError ''Duplicate Set Element''
                               ''This attribute contains duplicate values''],
             State = None, fetches = 3\<rparr>"
proof -
  have "Status (demo_saved ''READY'') = StringValue ''READY''
        \<and> ID (demo_saved ''READY'') = StringValue ''c-1''"
    using Create_ready_returns
      [where fw = quiet_framework and plan = demo_plan and plan_diags = "[]"
         and client = "demo_api [demo_cluster ''PENDING'']
                       [Inr (demo_cluster ''PENDING''), Inr (demo_cluster ''READY''),
                        Inr (demo_cluster ''UPDATING'')]"
         and ?c0.0 = "demo_cluster ''PENDING''" and others = "[]"
         and cs = "[demo_cluster ''PENDING'', demo_cluster ''READY'']"
         and rest = "[Inr (demo_cluster ''UPDATING'')]"]
    by (auto simp: demo_api_def cl_Status_demo StateSet_quiet saveFromResponse_demo_saved
          HasError_def)
       (simp add: demo_cluster_def)
  moreover have "\<exists>r. Create strict_framework
       (demo_api [demo_cluster ''PENDING'']
          [Inr (demo_cluster ''PENDING''), Inr demo_cluster_duplicate_tags])
       demo_plan [] = Some r \<and> fetches r = 3 \<and> State r = None \<and> HasError (Diagnostics r)"
    using Create_ready_returns
      [where fw = strict_framework and plan = demo_plan and plan_diags = "[]"
         and client = "demo_api [demo_cluster ''PENDING'']
                       [Inr (demo_cluster ''PENDING''), Inr demo_cluster_duplicate_tags]"
         and ?c0.0 = "demo_cluster ''PENDING''" and others = "[]"
         and cs = "[demo_cluster ''PENDING'', demo_cluster_duplicate_tags]"
         and rest = "[]"]
    by (auto simp: demo_api_def cl_Status_demo cl_Status_duplicate_tags
          saveFromResponse_demo_duplicate_tags HasError_def eval_nat_numeral)
  ultimately show ?thesis
    using Create_demo_ready3 Create_demo_duplicate_tags by simp
qed

subsection \<open>Delete: not found\<close>

text \<open>
  C3: while \<open>Delete\<close> confirms the deletion, a fetch that fails with an \<open>ApiError\<close> of
  status 404 ends the operation without an error diagnostic and without a further fetch:
  after \<open>length cs\<close> fetches that succeeded, the operation returns with
  \<open>length cs + 1\<close> fetches made, whatever answers \<open>rest\<close> the service would still give.
  When the first fetch is the one that is not found, this is exactly one fetch.
\<close>

theorem Delete_not_found_succeeds:
  assumes "\<not> HasError state_diags"
    and "DeleteMdsCluster client = None"
    and "GetMdsCluster client = map Inr cs @ Inl (ApiError StatusNotFound msg) # rest"
  shows "Delete fw client state state_diags =
           Some \<lparr>Diagnostics = Append [] state_diags, State = None, fetches = Suc (length cs)\<rparr>
         \<and> \<not> HasError (Append [] state_diags)"
proof -
  have ok: "\<not> HasError (Append [] state_diags)"
    using assms(1) by (simp add: HasError_Append_Nil)
  have "delete_poll (GetMdsCluster client) 0 = Some (None, Suc (length cs))"
    unfolding assms(3) delete_poll_prefix by simp
  with ok assms(2) show ?thesis
    by (simp add: Delete_def)
qed

theorem Delete_not_found_succeeds_witness:
  "Delete quiet_framework
     (demo_api [] [Inl (ApiError StatusNotFound ''gone''), Inr (demo_cluster ''DELETING'')])
     demo_plan []
   = Some \<lparr>Diagnostics = [], State = None, fetches = 1\<rparr>"
  using Delete_not_found_succeeds
    [of "[]" "demo_api [] [Inl (ApiError StatusNotFound ''gone''),
                            Inr (demo_cluster ''DELETING'')]"
        "[]" "''gone''" "[Inr (demo_cluster ''DELETING'')]" quiet_framework demo_plan]
  by (simp add: demo_api_def HasError_def)

subsection \<open>Fetch errors\<close>

lemma Create_list_fetch_error:
  assumes "\<not> HasError plan_diags" and "CreateMdsCluster client = None"
    and "GetMdsClusters client = Inl err"
  shows "Create fw client plan plan_diags =
           Some \<lparr>Diagnostics = AddError (Append [] plan_diags) ''Fetching clusters''
                    (''Could not fetch clusters by name, unexpected error: '' @ Error err),
                 State = None, fetches = 1\<rparr>"
  using assms by (simp add: Create_def HasError_Append_Nil)

lemma Create_poll_fetch_error:
  assumes "\<not> HasError plan_diags" and "CreateMdsCluster client = None"
    and "GetMdsClusters client = Inr (c0 # others)"
    and "\<forall>c \<in> set (c0 # cs). cl_Status c \<noteq> ''READY'' \<and> cl_Status c \<noteq> ''FAILED''"
    and "GetMdsCluster client = map Inr cs @ Inl err # rest"
  shows "Create fw client plan plan_diags =
           Some \<lparr>Diagnostics = AddError (Append [] plan_diags) ''Fetching cluster''
                    (''Could not fetch cluster by ID, unexpected error: '' @ Error err),
                 State = None, fetches = Suc (Suc (length cs))\<rparr>"
proof -
  have "create_poll c0 (GetMdsCluster client) 1 = Some (Inl err, Suc (Suc (length cs)))"
    unfolding assms(5) using create_poll_prefix [OF assms(4), of "Inl err" rest 1] by simp
  moreover have "cl_Status c0 \<noteq> ''FAILED''" using assms(4) by simp
  ultimately show ?thesis
    using assms(1-3) by (simp add: Create_def HasError_Append_Nil)
qed

lemma Delete_fetch_error:
  assumes "\<not> HasError state_diags" and "DeleteMdsCluster client = None"
    and "GetMdsCluster client = map Inr cs @ Inl err # rest"
    and "\<forall>msg. err \<noteq> ApiError StatusNotFound msg"
  shows "Delete fw client state state_diags =
           Some \<lparr>Diagnostics = AddError (Append [] state_diags) ''Fetching cluster''
                    (''Could not fetch cluster by id ['' @ String_v fw (ID state)
                       @ ''], unexpected error: '' @ Error err),
                 State = None, fetches = Suc (length cs)\<rparr>"
proof -
  have "delete_poll (Inl err # rest) (length cs) = Some (Some err, Suc (length cs))"
    using assms(4) by (cases err) auto
  then have "delete_poll (GetMdsCluster client) 0 = Some (Some err, Suc (length cs))"
    unfolding assms(3) delete_poll_prefix by simp
  then show ?thesis
    using assms(1,2) by (simp add: Delete_def HasError_Append_Nil)
qed

text \<open>
  C4: in both loops a fetch error other than the not-found of \<open>Delete\<close> ends the
  operation at once with an error diagnostic, without state and without a further fetch:
  the number of fetches is the position of the failed one, and the answers \<open>rest\<close> after
  it play no role. This holds for the query by name of \<open>Create\<close>, for a fetch in the
  loop of \<open>Create\<close> (where a 404 is an error like any other) and for a fetch in the loop
  of \<open>Delete\<close>. The loops repeat only after a fetch that succeeded.
\<close>

theorem fetch_error_aborts:
  "(\<not> HasError plan_diags \<and> CreateMdsCluster client = None \<and> GetMdsClusters client = Inl err
      \<longrightarrow> (\<exists>r. Create fw client plan plan_diags = Some r \<and> HasError (Diagnostics r)
               \<and> State r = None \<and> fetches r = 1))
   \<and> (\<not> HasError plan_diags \<and> CreateMdsCluster client = None
        \<and> GetMdsClusters client = Inr (c0 # others)
        \<and> (\<forall>c \<in> set (c0 # cs). cl_Status c \<noteq> ''READY'' \<and> cl_Status c \<noteq> ''FAILED'')
        \<and> GetMdsCluster client = map Inr cs @ Inl err # rest
      \<longrightarrow> (\<exists>r. Create fw client plan plan_diags = Some r \<and> HasError (Diagnostics r)
               \<and> State r = None \<and> fetches r = length (c0 # cs) + 1))
   \<and> (\<not> HasError state_diags \<and> DeleteMdsCluster client = None
        \<and> GetMdsCluster client = map Inr cs @ Inl err # rest
        \<and> (\<forall>msg. err \<noteq> ApiError StatusNotFound msg)
      \<longrightarrow> (\<exists>r. Delete fw client state state_diags = Some r \<and> HasError (Diagnostics r)
               \<and> fetches r = length cs + 1))"
  by (auto simp: Create_list_fetch_error Create_poll_fetch_error Delete_fetch_error
        HasError_AddError simp del: Append.simps)

theorem fetch_error_aborts_witness:
  "(\<exists>r. Create quiet_framework
           \<lparr>CreateMdsCluster = None, GetMdsClusters = Inl (OtherError ''timeout''),
            GetMdsCluster = [Inr (demo_cluster ''READY'')], DeleteMdsCluster = None\<rparr>
           demo_plan [] = Some r
        \<and> HasError (Diagnostics r) \<and> State r = None \<and> fetches r = 1)
   \<and> (\<exists>r. Create quiet_framework
           (demo_api [demo_cluster ''PENDING'']
              [Inr (demo_cluster ''PENDING''), Inl (ApiError 404 ''gone''),
               Inr (demo_cluster ''READY'')])
           demo_plan [] = Some r
        \<and> HasError (Diagnostics r) \<and> State r = None \<and> fetches r = 3)
   \<and> (\<exists>r. Delete quiet_framework
           (demo_api [] [Inr (demo_cluster ''DELETING''), Inl (ApiError 500 ''boom''),
                         Inl (ApiError StatusNotFound ''gone'')])
           demo_plan [] = Some r
        \<and> HasError (Diagnostics r) \<and> fetches r = 2)"
proof -
  have a: "\<exists>r. Create quiet_framework
           \<lparr>CreateMdsCluster = None, GetMdsClusters = Inl (OtherError ''timeout''),
            GetMdsCluster = [Inr (demo_cluster ''READY'')], DeleteMdsCluster = None\<rparr>
           demo_plan [] = Some r
        \<and> HasError (Diagnostics r) \<and> State r = None \<and> fetches r = 1"
    using fetch_error_aborts
      [where plan_diags = "[]" and fw = quiet_framework and plan = demo_plan
         and err = "OtherError ''timeout''"
         and client = "\<lparr>CreateMdsCluster = None, GetMdsClusters = Inl (OtherError ''timeout''),
            GetMdsCluster = [Inr (demo_cluster ''READY'')], DeleteMdsCluster = None\<rparr>"]
    by (auto simp add: HasError_def)
  have b: "\<exists>r. Create quiet_framework
           (demo_api [demo_cluster ''PENDING'']
              [Inr (demo_cluster ''PENDING''), Inl (ApiError 404 ''gone''),
               Inr (demo_cluster ''READY'')])
           demo_plan [] = Some r
        \<and> HasError (Diagnostics r) \<and> State r = None \<and> fetches r = 3"
    using fetch_error_aborts
      [where plan_diags = "[]" and fw = quiet_framework and plan = demo_plan
         and err = "ApiError 404 ''gone''" and ?c0.0 = "demo_cluster ''PENDING''"
         and others = "[]" and cs = "[demo_cluster ''PENDING'']"
         and rest = "[Inr (demo_cluster ''READY'')]"
         and client = "demo_api [demo_cluster ''PENDING'']
              [Inr (demo_cluster ''PENDING''), Inl (ApiError 404 ''gone''),
               Inr (demo_cluster ''READY'')]"]
    by (auto simp add: HasError_def demo_api_def cl_Status_demo eval_nat_numeral)
  have c: "\<exists>r. Delete quiet_framework
           (demo_api [] [Inr (demo_cluster ''DELETING''), Inl (ApiError 500 ''boom''),
                         Inl (ApiError StatusNotFound ''gone'')])
           demo_plan [] = Some r
        \<and> HasError (Diagnostics r) \<and> fetches r = 2"
    using fetch_error_aborts
      [where state_diags = "[]" and fw = quiet_framework and state = demo_plan
         and err = "ApiError 500 ''boom''" and cs = "[demo_cluster ''DELETING'']"
         and rest = "[Inl (ApiError StatusNotFound ''gone'')]"
         and client = "demo_api [] [Inr (demo_cluster ''DELETING''), Inl (ApiError 500 ''boom''),
                         Inl (ApiError StatusNotFound ''gone'')]"]
    by (auto simp add: HasError_def demo_api_def StatusNotFound_def eval_nat_numeral)
  from a b c show ?thesis by blast
qed

subsection \<open>What a successful return has observed\<close>

lemma Create_State_terminal:
  assumes "Create fw client plan plan_diags = Some r" and "State r = Some st"
  shows "Status st = StringValue ''READY'' \<or> Status st = StringValue ''FAILED''"
proof -
  from assms obtain c0 others c n rc diagnostics written where
    poll: "create_poll c0 (GetMdsCluster client) 1 = Some (Inr c, n)" and
    save: "saveFromResponse fw (Append [] plan_diags) plan c = (rc, diagnostics, st, written)"
    unfolding Create_def Let_def
    by (auto split: if_splits option.splits sum.splits list.splits prod.splits)
  from create_poll_terminal [OF poll] saveFromResponse_Status(1) [OF save]
  show ?thesis by auto
qed

lemma Delete_success_not_found:
  assumes "Delete fw client state state_diags = Some r" and "\<not> HasError (Diagnostics r)"
  shows "\<exists>k msg. k < length (GetMdsCluster client)
           \<and> GetMdsCluster client ! k = Inl (ApiError StatusNotFound msg) \<and> fetches r = Suc k"
proof -
  from assms obtain n where "delete_poll (GetMdsCluster client) 0 = Some (None, n)"
    and "fetches r = n"
    unfolding Delete_def Let_def
    by (auto simp: HasError_AddError split: if_splits option.splits simp del: Append.simps)
  with delete_poll_found [of "GetMdsCluster client" 0 n] show ?thesis by auto
qed

lemma Create_still_polling:
  assumes "\<not> HasError plan_diags" and "CreateMdsCluster client = None"
    and "GetMdsClusters client = Inr (c0 # others)"
    and "\<forall>c \<in> set (c0 # cs). cl_Status c \<noteq> ''READY'' \<and> cl_Status c \<noteq> ''FAILED''"
    and "GetMdsCluster client = map Inr cs"
  shows "Create fw client plan plan_diags = None"
proof -
  have "create_poll c0 (GetMdsCluster client) 1 = None"
    unfolding assms(5) using assms(4) by (rule create_poll_pending)
  moreover have "cl_Status c0 \<noteq> ''FAILED''" using assms(4) by simp
  ultimately show ?thesis
    using assms(1-3) by (simp add: Create_def HasError_Append_Nil)
qed

lemma Delete_still_polling:
  assumes "\<not> HasError state_diags" and "DeleteMdsCluster client = None"
    and "GetMdsCluster client = map Inr cs"
  shows "Delete fw client state state_diags = None"
proof -
  have "delete_poll (GetMdsCluster client) 0 = None"
    unfolding assms(3) using delete_poll_prefix [of cs "[]" 0] by simp
  then show ?thesis
    using assms(1,2) by (simp add: Delete_def HasError_Append_Nil)
qed

lemma Delete_demo_gone:
  "Delete quiet_framework
     (demo_api [] [Inr (demo_cluster ''DELETING''), Inl (ApiError StatusNotFound ''gone'')])
     demo_plan []
   = Some \<lparr>Diagnostics = [], State = None, fetches = 2\<rparr>"
  by (simp add: Delete_def demo_api_def HasError_def)

lemma Create_demo_ready:
  "Create quiet_framework (demo_api [demo_cluster ''PENDING''] [Inr (demo_cluster ''READY'')])
     demo_plan []
   = Some \<lparr>Diagnostics = [], State = Some (demo_saved ''READY''), fetches = 2\<rparr>"
  using Create_settled [where others = "[]" and rest = "[]" and fw = quiet_framework
      and plan = demo_plan and plan_diags = "[]" and ?c0.0 = "demo_cluster ''PENDING''"
      and cs = "[demo_cluster ''READY'']" and state = "demo_saved ''READY''"
      and diagnostics = "[]"
      and client = "demo_api [demo_cluster ''PENDING''] [Inr (demo_cluster ''READY'')]"]
  by (simp add: demo_api_def cl_Status_demo StateSet_quiet saveFromResponse_demo_saved
          HasError_def)

text \<open>
  C5: the loops never hand a cluster with a pending status back as a success. A state
  that \<open>Create\<close> stores has the status \<open>READY\<close> or \<open>FAILED\<close>; a \<open>Delete\<close> that returns
  without an error diagnostic has seen a 404 at its last fetch. The source has no retry
  budget: after any number of pending answers \<open>Create\<close> has not returned, and after any
  number of successful fetches \<open>Delete\<close> has not returned.
\<close>

theorem polling_success_is_terminal:
  "(Create fw client plan plan_diags = Some r \<and> State r = Some st
      \<longrightarrow> Status st = StringValue ''READY'' \<or> Status st = StringValue ''FAILED'')
   \<and> (Delete fw client state state_diags = Some r \<and> \<not> HasError (Diagnostics r)
      \<longrightarrow> (\<exists>k msg. k < length (GetMdsCluster client)
             \<and> GetMdsCluster client ! k = Inl (ApiError StatusNotFound msg)
             \<and> fetches r = Suc k))
   \<and> (\<not> HasError plan_diags \<and> CreateMdsCluster client = None
        \<and> GetMdsClusters client = Inr (c0 # others)
        \<and> (\<forall>c \<in> set (c0 # cs). cl_Status c \<noteq> ''READY'' \<and> cl_Status c \<noteq> ''FAILED'')
        \<and> GetMdsCluster client = map Inr cs
      \<longrightarrow> Create fw client plan plan_diags = None)
   \<and> (\<not> HasError state_diags \<and> DeleteMdsCluster client = None
        \<and> GetMdsCluster client = map Inr cs
      \<longrightarrow> Delete fw client state state_diags = None)"
  using Create_State_terminal [of fw client plan plan_diags r st]
    Delete_success_not_found [of fw client state state_diags r]
    Create_still_polling [of plan_diags client c0 others cs fw plan]
    Delete_still_polling [of state_diags client cs fw state]
  by blast

theorem polling_success_is_terminal_witness:
  "(Create quiet_framework (demo_api [demo_cluster ''PENDING''] [Inr (demo_cluster ''READY'')])
      demo_plan []
     = Some \<lparr>Diagnostics = [], State = Some (demo_saved ''READY''), fetches = 2\<rparr>
    \<and> (Status (demo_saved ''READY'') = StringValue ''READY''
       \<or> Status (demo_saved ''READY'') = StringValue ''FAILED''))
   \<and> (Delete quiet_framework
        (demo_api [] [Inr (demo_cluster ''DELETING''), Inl (ApiError StatusNotFound ''gone'')])
        demo_plan []
       = Some \<lparr>Diagnostics = [], State = None, fetches = 2\<rparr>
      \<and> (\<exists>k msg. k < length [Inr (demo_cluster ''DELETING''),
                                Inl (ApiError StatusNotFound ''gone'')]
            \<and> [Inr (demo_cluster ''DELETING''), Inl (ApiError StatusNotFound ''gone'')] ! k
                = Inl (ApiError StatusNotFound msg)
            \<and> (2::nat) = Suc k))
   \<and> Create quiet_framework
       (demo_api [demo_cluster ''PENDING'']
          [Inr (demo_cluster ''PENDING''), Inr (demo_cluster ''CREATING'')])
       demo_plan [] = None
   \<and> Delete quiet_framework
       (demo_api [] [Inr (demo_cluster ''DELETING''), Inr (demo_cluster ''DELETING'')])
       demo_plan [] = None"
proof -
  have a: "Status (demo_saved ''READY'') = StringValue ''READY''
       \<or> Status (demo_saved ''READY'') = StringValue ''FAILED''"
    using polling_success_is_terminal
      [where fw = quiet_framework and plan = demo_plan and plan_diags = "[]"
         and client = "demo_api [demo_cluster ''PENDING''] [Inr (demo_cluster ''READY'')]"
         and r = "\<lparr>Diagnostics = [], State = Some (demo_saved ''READY''), fetches = 2\<rparr>"
         and st = "demo_saved ''READY''"]
      Create_demo_ready
    by simp
  have b: "\<exists>k msg. k < length [Inr (demo_cluster ''DELETING''),
                                Inl (ApiError StatusNotFound ''gone'')]
            \<and> [Inr (demo_cluster ''DELETING''), Inl (ApiError StatusNotFound ''gone'')] ! k
                = Inl (ApiError StatusNotFound msg)
            \<and> (2::nat) = Suc k"
    using polling_success_is_terminal
      [where fw = quiet_framework and state = demo_plan and state_diags = "[]"
         and client = "demo_api [] [Inr (demo_cluster ''DELETING''),
                                     Inl (ApiError StatusNotFound ''gone'')]"
         and r = "\<lparr>Diagnostics = [], State = None, fetches = 2\<rparr>"]
      Delete_demo_gone
    by (simp add: demo_api_def HasError_def)
  have c: "Create quiet_framework
       (demo_api [demo_cluster ''PENDING'']
          [Inr (demo_cluster ''PENDING''), Inr (demo_cluster ''CREATING'')])
       demo_plan [] = None"
    using polling_success_is_terminal
      [where fw = quiet_framework and plan = demo_plan and plan_diags = "[]"
         and client = "demo_api [demo_cluster ''PENDING'']
            [Inr (demo_cluster ''PENDING''), Inr (demo_cluster ''CREATING'')]"
         and ?c0.0 = "demo_cluster ''PENDING''" and others = "[]"
         and cs = "[demo_cluster ''PENDING'', demo_cluster ''CREATING'']"]
    by (simp add: demo_api_def cl_Status_demo HasError_def)
  have d: "Delete quiet_framework
       (demo_api [] [Inr (demo_cluster ''DELETING''), Inr (demo_cluster ''DELETING'')])
       demo_plan [] = None"
    using polling_success_is_terminal
      [where fw = quiet_framework and state = demo_plan and state_diags = "[]"
         and client = "demo_api [] [Inr (demo_cluster ''DELETING''),
                                     Inr (demo_cluster ''DELETING'')]"
         and cs = "[demo_cluster ''DELETING'', demo_cluster ''DELETING'']"]
    by (simp add: demo_api_def HasError_def)
  from a b c d Create_demo_ready Delete_demo_gone show ?thesis by blast
qed

subsection \<open>The state mappers applied twice\<close>








subsection \<open>What saveFromResponse writes\<close>

lemma saveFromResponse_written_attributes:
  assumes "saveFromResponse fw diagnostics state0 cluster = (rc, diagnostics', state', written)"
  shows "distinct written
    \<and> set written \<subseteq> set clusterResourceModel_attributes
                      - {''network_policy_ids'', ''dedicated'', ''shared''}
    \<and> {''id'', ''name'', ''service_type'', ''cloud_provider'', ''instance_size'', ''region'',
        ''status'', ''org_id'', ''data_plane_id'', ''last_updated'', ''created''} \<subseteq> set written
    \<and> NetworkPolicyIds state' = NetworkPolicyIds state0
    \<and> Dedicated state' = Dedicated state0 \<and> Shared state' = Shared state0
    \<and> ID state' = StringValue (cl_ID cluster) \<and> Name state' = StringValue (cl_Name cluster)
    \<and> ServiceType state' = StringValue (cl_ServiceType cluster)
    \<and> Provider state' = StringValue (cl_Provider cluster)
    \<and> InstanceSize state' = StringValue (cl_InstanceSize cluster)
    \<and> Region state' = StringValue (cl_Region cluster)
    \<and> Status state' = StringValue (cl_Status cluster)
    \<and> OrgId state' = StringValue (cl_OrgId cluster)
    \<and> DataPlaneId state' = StringValue (cl_DataPlaneId cluster)
    \<and> LastUpdated state' = StringValue (cl_LastUpdated cluster)
    \<and> Created state' = StringValue (cl_Created cluster)
    \<and> (rc = 0 \<longrightarrow>
         set written = set clusterResourceModel_attributes
                        - {''network_policy_ids'', ''dedicated'', ''shared''}
         \<and> Tags state' = fst (SetValueFrom fw StringType (cl_Tags cluster))
         \<and> (cl_Metadata cluster = None \<longrightarrow>
              Metadata state' = ObjectValue (AttributeTypes (Metadata state0))
                \<lparr>ManagerUri = StringValue [], ConnectionUri = StringValue [],
                 MetricsEndpoints = ListNull StringType\<rparr>)
         \<and> (\<forall>md. cl_Metadata cluster = Some md \<longrightarrow>
              Metadata state' = ObjectValue (AttributeTypes (Metadata state0))
                \<lparr>ManagerUri = StringValue (md_ManagerUri md),
                 ConnectionUri = StringValue (md_ConnectionUri md),
                 MetricsEndpoints =
                   fst (ListValueFrom fw StringType (md_MetricsEndpoints md))\<rparr>))"
proof -
  note log = saveFromResponse_log [OF assms, unfolded saveFromResponse_strings_names]
  from log have d: "distinct written" by auto
  from log have sub: "set written \<subseteq> set clusterResourceModel_attributes
                      - {''network_policy_ids'', ''dedicated'', ''shared''}"
    by (auto simp: clusterResourceModel_attributes_def)
  from log have strings: "{''id'', ''name'', ''service_type'', ''cloud_provider'',
        ''instance_size'', ''region'', ''status'', ''org_id'', ''data_plane_id'',
        ''last_updated'', ''created''} \<subseteq> set written"
    by auto
  from log have every: "rc = 0 \<Longrightarrow> set written = set clusterResourceModel_attributes
                        - {''network_policy_ids'', ''dedicated'', ''shared''}"
    by (auto simp: clusterResourceModel_attributes_def)
  have vals: "rc = 0 \<Longrightarrow>
     Tags state' = fst (SetValueFrom fw StringType (cl_Tags cluster))
     \<and> (cl_Metadata cluster = None \<longrightarrow>
              Metadata state' = ObjectValue (AttributeTypes (Metadata state0))
                \<lparr>ManagerUri = StringValue [], ConnectionUri = StringValue [],
                 MetricsEndpoints = ListNull StringType\<rparr>)
         \<and> (\<forall>md. cl_Metadata cluster = Some md \<longrightarrow>
              Metadata state' = ObjectValue (AttributeTypes (Metadata state0))
                \<lparr>ManagerUri = StringValue (md_ManagerUri md),
                 ConnectionUri = StringValue (md_ConnectionUri md),
                 MetricsEndpoints =
                   fst (ListValueFrom fw StringType (md_MetricsEndpoints md))\<rparr>)"
    using assms saveFromResponse_Tags_Metadata [of fw diagnostics state0 cluster diagnostics'
        state' written]
    by auto
  from d sub strings every vals saveFromResponse_frame [OF assms]
    saveFromResponse_strings_copied [OF assms]
  show ?thesis by blast
qed

text \<open>
  C7, as the source has it: a call of \<open>saveFromResponse\<close> assigns no attribute twice and
  never assigns \<open>network_policy_ids\<close>, \<open>dedicated\<close> or \<open>shared\<close>, which keep the values
  they had before the call (the schema documents them as used for creation only). Every
  call sets the eleven string attributes to the known values of the response. A call that
  returns 0 has assigned exactly the thirteen other attributes: the strings, \<open>metadata\<close>
  and \<open>tags\<close>.

  \<open>metadata\<close> is assigned exactly when no error is among the diagnostics after
  \<open>ObjectValueFrom\<close>: none before the call, none from the conversion of the metrics
  endpoints (when the response has metadata) and none from \<open>ObjectValueFrom\<close> itself.
  Then it is a known object of the attribute types the state had before, with the manager
  URI, the connection URI and the converted metrics endpoints of the response, or, when
  the response has no metadata, with two empty strings and the null list; this holds also
  when the later conversion of the tags fails. Otherwise the call returns 1 and
  \<open>metadata\<close> keeps the value it had before the call.

  \<open>tags\<close> is assigned exactly when the call returns 0, which is when \<open>metadata\<close> was
  assigned and the conversion of the tags reports no error; then it is the converted set
  of the tags of the response. A call that does not return 0 returns 1, leaves an error
  among the diagnostics and leaves \<open>tags\<close> as it was.
\<close>

theorem saveFromResponse_writes:
  assumes "saveFromResponse fw diagnostics state0 cluster = (rc, diagnostics', state', written)"
  shows "(distinct written
    \<and> set written \<subseteq> set clusterResourceModel_attributes
                      - {''network_policy_ids'', ''dedicated'', ''shared''}
    \<and> {''id'', ''name'', ''service_type'', ''cloud_provider'', ''instance_size'', ''region'',
        ''status'', ''org_id'', ''data_plane_id'', ''last_updated'', ''created''} \<subseteq> set written
    \<and> NetworkPolicyIds state' = NetworkPolicyIds state0
    \<and> Dedicated state' = Dedicated state0 \<and> Shared state' = Shared state0
    \<and> ID state' = StringValue (cl_ID cluster) \<and> Name state' = StringValue (cl_Name cluster)
    \<and> ServiceType state' = StringValue (cl_ServiceType cluster)
    \<and> Provider state' = StringValue (cl_Provider cluster)
    \<and> InstanceSize state' = StringValue (cl_InstanceSize cluster)
    \<and> Region state' = StringValue (cl_Region cluster)
    \<and> Status state' = StringValue (cl_Status cluster)
    \<and> OrgId state' = StringValue (cl_OrgId cluster)
    \<and> DataPlaneId state' = StringValue (cl_DataPlaneId cluster)
    \<and> LastUpdated state' = StringValue (cl_LastUpdated cluster)
    \<and> Created state' = StringValue (cl_Created cluster)
    \<and> (rc = 0 \<longrightarrow>
         set written = set clusterResourceModel_attributes
                        - {''network_policy_ids'', ''dedicated'', ''shared''}
         \<and> Tags state' = fst (SetValueFrom fw StringType (cl_Tags cluster))
         \<and> (cl_Metadata cluster = None \<longrightarrow>
              Metadata state' = ObjectValue (AttributeTypes (Metadata state0))
                \<lparr>ManagerUri = StringValue [], ConnectionUri = StringValue [],
                 MetricsEndpoints = ListNull StringType\<rparr>)
         \<and> (\<forall>md. cl_Metadata cluster = Some md \<longrightarrow>
              Metadata state' = ObjectValue (AttributeTypes (Metadata state0))
                \<lparr>ManagerUri = StringValue (md_ManagerUri md),
                 ConnectionUri = StringValue (md_ConnectionUri md),
                 MetricsEndpoints =
                   fst (ListValueFrom fw StringType (md_MetricsEndpoints md))\<rparr>)))
    \<and> (cl_Metadata cluster = None \<longrightarrow>
         (if HasError diagnostics
             \<or> HasError (ObjectValueFrom_diags fw (AttributeTypes (Metadata state0))
                   \<lparr>ManagerUri = StringValue [], ConnectionUri = StringValue [],
                    MetricsEndpoints = ListNull StringType\<rparr>)
          then ''metadata'' \<notin> set written \<and> Metadata state' = Metadata state0 \<and> rc = 1
          else ''metadata'' \<in> set written
               \<and> Metadata state' = ObjectValue (AttributeTypes (Metadata state0))
                     \<lparr>ManagerUri = StringValue [], ConnectionUri = StringValue [],
                      MetricsEndpoints = ListNull StringType\<rparr>))
    \<and> (\<forall>md. cl_Metadata cluster = Some md \<longrightarrow>
         (if HasError diagnostics
             \<or> HasError (snd (ListValueFrom fw StringType (md_MetricsEndpoints md)))
             \<or> HasError (ObjectValueFrom_diags fw (AttributeTypes (Metadata state0))
                   \<lparr>ManagerUri = StringValue (md_ManagerUri md),
                    ConnectionUri = StringValue (md_ConnectionUri md),
                    MetricsEndpoints =
                      fst (ListValueFrom fw StringType (md_MetricsEndpoints md))\<rparr>)
          then ''metadata'' \<notin> set written \<and> Metadata state' = Metadata state0 \<and> rc = 1
          else ''metadata'' \<in> set written
               \<and> Metadata state' = ObjectValue (AttributeTypes (Metadata state0))
                     \<lparr>ManagerUri = StringValue (md_ManagerUri md),
                      ConnectionUri = StringValue (md_ConnectionUri md),
                      MetricsEndpoints =
                        fst (ListValueFrom fw StringType (md_MetricsEndpoints md))\<rparr>))
    \<and> (''tags'' \<in> set written) = (rc = 0)
    \<and> (rc = 0) = (''metadata'' \<in> set written
                   \<and> \<not> HasError (snd (SetValueFrom fw StringType (cl_Tags cluster))))
    \<and> (rc \<noteq> 0 \<longrightarrow> rc = 1 \<and> Tags state' = Tags state0 \<and> HasError diagnostics')"
proof -
  have absent: "cl_Metadata cluster = None \<longrightarrow>
         (if HasError diagnostics
             \<or> HasError (ObjectValueFrom_diags fw (AttributeTypes (Metadata state0))
                   \<lparr>ManagerUri = StringValue [], ConnectionUri = StringValue [],
                    MetricsEndpoints = ListNull StringType\<rparr>)
          then ''metadata'' \<notin> set written \<and> Metadata state' = Metadata state0 \<and> rc = 1
          else ''metadata'' \<in> set written
               \<and> Metadata state' = ObjectValue (AttributeTypes (Metadata state0))
                     \<lparr>ManagerUri = StringValue [], ConnectionUri = StringValue [],
                      MetricsEndpoints = ListNull StringType\<rparr>)"
    using assms by (intro impI) (rule saveFromResponse_metadata_absent)
  have present: "\<forall>md. cl_Metadata cluster = Some md \<longrightarrow>
         (if HasError diagnostics
             \<or> HasError (snd (ListValueFrom fw StringType (md_MetricsEndpoints md)))
             \<or> HasError (ObjectValueFrom_diags fw (AttributeTypes (Metadata state0))
                   \<lparr>ManagerUri = StringValue (md_ManagerUri md),
                    ConnectionUri = StringValue (md_ConnectionUri md),
                    MetricsEndpoints =
                      fst (ListValueFrom fw StringType (md_MetricsEndpoints md))\<rparr>)
          then ''metadata'' \<notin> set written \<and> Metadata state' = Metadata state0 \<and> rc = 1
          else ''metadata'' \<in> set written
               \<and> Metadata state' = ObjectValue (AttributeTypes (Metadata state0))
                     \<lparr>ManagerUri = StringValue (md_ManagerUri md),
                      ConnectionUri = StringValue (md_ConnectionUri md),
                      MetricsEndpoints =
                        fst (ListValueFrom fw StringType (md_MetricsEndpoints md))\<rparr>)"
    using assms by (intro allI impI) (rule saveFromResponse_metadata_present)
  have failed: "rc \<noteq> 0 \<longrightarrow> rc = 1 \<and> Tags state' = Tags state0 \<and> HasError diagnostics'"
    using saveFromResponse_tags(3) [OF assms] by blast
  show ?thesis
    by (rule conjI [OF saveFromResponse_written_attributes [OF assms]
          conjI [OF absent conjI [OF present
            conjI [OF saveFromResponse_tags(1) [OF assms]
              conjI [OF saveFromResponse_tags(2) [OF assms] failed]]]]])
qed

text \<open>
  C7 as stated fails: in a call that returns 0, \<open>dedicated\<close> is a declared attribute
  that is not among the assigned ones and still holds \<open>true\<close>, its value in the plan; so
  do \<open>shared\<close> and \<open>network_policy_ids\<close>.
\<close>

theorem saveFromResponse_writes_counterexample:
  "saveFromResponse (quiet_framework :: clusterResourceModel framework) [] demo_plan
       (demo_cluster ''READY'')
     = (0, [], demo_saved ''READY'',
        [''id'', ''name'', ''service_type'', ''cloud_provider'', ''instance_size'', ''region'',
         ''status'', ''org_id'', ''data_plane_id'', ''last_updated'', ''created'', ''metadata'',
         ''tags''])
   \<and> ''dedicated'' \<in> set clusterResourceModel_attributes
   \<and> ''dedicated'' \<notin> set [''id'', ''name'', ''service_type'', ''cloud_provider'',
         ''instance_size'', ''region'', ''status'', ''org_id'', ''data_plane_id'',
         ''last_updated'', ''created'', ''metadata'', ''tags'']
   \<and> Dedicated demo_plan = BoolValue True
   \<and> Dedicated (demo_saved ''READY'') = BoolValue True
   \<and> Shared (demo_saved ''READY'') = Shared demo_plan
   \<and> NetworkPolicyIds (demo_saved ''READY'') = NetworkPolicyIds demo_plan"
  by (simp add: saveFromResponse_demo_saved clusterResourceModel_attributes_def)
     (simp add: demo_saved_def demo_plan_def)

lemma saveFromResponse_demo_metadata:
  "fst (saveFromResponse (quiet_framework :: clusterResourceModel framework) [] demo_plan
          demo_cluster_metadata) = 0"
  by (simp add: saveFromResponse_def saveFromResponse_metadataModel_def ObjectValueFrom_def
        assign_def HasError_def quiet_framework_def demo_cluster_metadata_def demo_cluster_def
        Let_def)

theorem saveFromResponse_writes_witness:
  "saveFromResponse (quiet_framework :: clusterResourceModel framework) [] demo_plan
       (demo_cluster ''READY'')
     = (0, [], demo_saved ''READY'',
        [''id'', ''name'', ''service_type'', ''cloud_provider'', ''instance_size'', ''region'',
         ''status'', ''org_id'', ''data_plane_id'', ''last_updated'', ''created'', ''metadata'',
         ''tags''])
   \<and> set [''id'', ''name'', ''service_type'', ''cloud_provider'', ''instance_size'', ''region'',
         ''status'', ''org_id'', ''data_plane_id'', ''last_updated'', ''created'', ''metadata'',
         ''tags'']
       = set clusterResourceModel_attributes - {''network_policy_ids'', ''dedicated'', ''shared''}
   \<and> Dedicated (demo_saved ''READY'') = Dedicated demo_plan
   \<and> Status (demo_saved ''READY'') = StringValue ''READY''
   \<and> Tags (demo_saved ''READY'') = SetValue StringType [''blue'']
   \<and> Metadata (demo_saved ''READY'') = ObjectValue metadata_attr_types
        \<lparr>ManagerUri = StringValue [], ConnectionUri = StringValue [],
         MetricsEndpoints = ListNull StringType\<rparr>
   \<and> fst (saveFromResponse (quiet_framework :: clusterResourceModel framework) [] demo_plan
            demo_cluster_metadata) = 0
   \<and> Metadata (fst (snd (snd (saveFromResponse
          (quiet_framework :: clusterResourceModel framework) [] demo_plan
          demo_cluster_metadata))))
       = ObjectValue metadata_attr_types
           \<lparr>ManagerUri = StringValue ''https://manager'',
            ConnectionUri = StringValue ''amqps://broker'',
            MetricsEndpoints = ListValue StringType [''https://metrics'']\<rparr>
   \<and> saveFromResponse (strict_framework :: clusterResourceModel framework) [] demo_plan
       demo_cluster_duplicate_tags
     = (1, [Diagnostic SeverityError ''Duplicate Set Element''
              ''This attribute contains duplicate values''],
        demo_saved ''READY'',
        [''id'', ''name'', ''service_type'', ''cloud_provider'', ''instance_size'', ''region'',
         ''status'', ''org_id'', ''data_plane_id'', ''last_updated'', ''created'',
         ''metadata''])
   \<and> Tags (demo_saved ''READY'') = Tags demo_plan
   \<and> fst (saveFromResponse (quiet_framework :: clusterResourceModel framework)
            [Diagnostic SeverityError ''Reading the plan'' ''failed''] demo_plan
            (demo_cluster ''READY'')) = 1
   \<and> Metadata (fst (snd (snd (saveFromResponse
          (quiet_framework :: clusterResourceModel framework)
          [Diagnostic SeverityError ''Reading the plan'' ''failed''] demo_plan
          (demo_cluster ''READY'')))))
       = ObjectUnknown metadata_attr_types"
proof -
  have duplicate: "Metadata (demo_saved ''READY'') = ObjectValue metadata_attr_types
        \<lparr>ManagerUri = StringValue [], ConnectionUri = StringValue [],
         MetricsEndpoints = ListNull StringType\<rparr>
      \<and> Tags (demo_saved ''READY'') = Tags demo_plan"
    using saveFromResponse_writes [OF saveFromResponse_demo_duplicate_tags]
    by (simp add: demo_cluster_duplicate_tags_def demo_cluster_def strict_framework_def
          HasError_def)
       (simp add: demo_plan_def)
  have failing: "saveFromResponse (quiet_framework :: clusterResourceModel framework)
                   [Diagnostic SeverityError ''Reading the plan'' ''failed''] demo_plan
                   (demo_cluster ''READY'')
             = (fst (saveFromResponse (quiet_framework :: clusterResourceModel framework)
                            [Diagnostic SeverityError ''Reading the plan'' ''failed'']
                            demo_plan (demo_cluster ''READY'')),
                fst (snd (saveFromResponse (quiet_framework :: clusterResourceModel framework)
                            [Diagnostic SeverityError ''Reading the plan'' ''failed'']
                            demo_plan (demo_cluster ''READY''))),
                fst (snd (snd (saveFromResponse
                            (quiet_framework :: clusterResourceModel framework)
                            [Diagnostic SeverityError ''Reading the plan'' ''failed'']
                            demo_plan (demo_cluster ''READY'')))),
                snd (snd (snd (saveFromResponse
                            (quiet_framework :: clusterResourceModel framework)
                            [Diagnostic SeverityError ''Reading the plan'' ''failed'']
                            demo_plan (demo_cluster ''READY'')))))"
    by simp
  have unwritten: "fst (saveFromResponse (quiet_framework :: clusterResourceModel framework)
            [Diagnostic SeverityError ''Reading the plan'' ''failed''] demo_plan
            (demo_cluster ''READY'')) = 1
   \<and> Metadata (fst (snd (snd (saveFromResponse
          (quiet_framework :: clusterResourceModel framework)
          [Diagnostic SeverityError ''Reading the plan'' ''failed''] demo_plan
          (demo_cluster ''READY'')))))
       = ObjectUnknown metadata_attr_types"
    using saveFromResponse_writes [OF failing]
    by (simp add: demo_cluster_def HasError_def)
       (simp add: demo_plan_def)
  have absent: "set [''id'', ''name'', ''service_type'', ''cloud_provider'', ''instance_size'',
         ''region'', ''status'', ''org_id'', ''data_plane_id'', ''last_updated'', ''created'',
         ''metadata'', ''tags'']
       = set clusterResourceModel_attributes - {''network_policy_ids'', ''dedicated'', ''shared''}
   \<and> Dedicated (demo_saved ''READY'') = Dedicated demo_plan
   \<and> Status (demo_saved ''READY'') = StringValue ''READY''
   \<and> Tags (demo_saved ''READY'') = SetValue StringType [''blue'']
   \<and> Metadata (demo_saved ''READY'') = ObjectValue metadata_attr_types
        \<lparr>ManagerUri = StringValue [], ConnectionUri = StringValue [],
         MetricsEndpoints = ListNull StringType\<rparr>"
    using saveFromResponse_writes
      [where fw = "quiet_framework :: clusterResourceModel framework" and diagnostics = "[]"
         and ?state0.0 = demo_plan and cluster = "demo_cluster ''READY''" and rc = 0
         and diagnostics' = "[]" and state' = "demo_saved ''READY''"
         and written = "[''id'', ''name'', ''service_type'', ''cloud_provider'',
           ''instance_size'', ''region'', ''status'', ''org_id'', ''data_plane_id'',
           ''last_updated'', ''created'', ''metadata'', ''tags'']",
       OF saveFromResponse_demo_saved]
    by (simp add: cl_Status_demo)
       (simp add: demo_cluster_def demo_plan_def quiet_framework_def)
  have run: "saveFromResponse (quiet_framework :: clusterResourceModel framework) [] demo_plan
               demo_cluster_metadata
             = (0,
                fst (snd (saveFromResponse (quiet_framework :: clusterResourceModel framework)
                            [] demo_plan demo_cluster_metadata)),
                fst (snd (snd (saveFromResponse
                            (quiet_framework :: clusterResourceModel framework)
                            [] demo_plan demo_cluster_metadata))),
                snd (snd (snd (saveFromResponse
                            (quiet_framework :: clusterResourceModel framework)
                            [] demo_plan demo_cluster_metadata))))"
    using saveFromResponse_demo_metadata by (simp add: prod_eq_iff)
  have present: "Metadata (fst (snd (snd (saveFromResponse
          (quiet_framework :: clusterResourceModel framework) [] demo_plan
          demo_cluster_metadata))))
       = ObjectValue metadata_attr_types
           \<lparr>ManagerUri = StringValue ''https://manager'',
            ConnectionUri = StringValue ''amqps://broker'',
            MetricsEndpoints = ListValue StringType [''https://metrics'']\<rparr>"
    using saveFromResponse_writes [OF run]
    by (simp add: demo_cluster_metadata_def demo_plan_def quiet_framework_def)
  from absent present duplicate unwritten saveFromResponse_demo_metadata
    saveFromResponse_demo_saved saveFromResponse_demo_duplicate_tags
  show ?thesis by simp
qed

subsection \<open>The service roles\<close>

lemma Read_permissions_eq:
  "Read_permissions ps permissionsVal = permissionsVal @ map permission_literal ps"
  by (induction ps arbitrary: permissionsVal) simp_all

lemma Read_roles_eq:
  "Read_roles rs permissionsVal state =
     state\<lparr>Roles := Roles state @ map (\<lambda>role. roleList_literal role permissionsVal) rs\<rparr>"
  by (induction rs arbitrary: state) simp_all

lemma upt_1_Suc_Suc: "[Suc 0..<Suc (Suc n)] = Suc 0 # map Suc [Suc 0..<Suc n]"
  by (simp add: map_Suc_upt upt_conv_Cons del: upt_Suc)

lemma Read_loop_eq:
  "Read_loop rest allRoles (permissionsVal, state) =
     (permissionsVal @ concat (map (\<lambda>role. map permission_literal (rl_Permissions role)) rest),
      state\<lparr>Roles := Roles state @
        concat (map (\<lambda>k. map (\<lambda>role. roleList_literal role
                       (permissionsVal @ concat (map (\<lambda>role. map permission_literal
                          (rl_Permissions role)) (take k rest))))
                     allRoles)
                [1..<Suc (length rest)])\<rparr>)"
proof (induction rest arbitrary: permissionsVal state)
  case Nil
  show ?case by simp
next
  case (Cons role rest)
  show ?case
    unfolding Read_loop.simps Let_def Cons.IH Read_permissions_eq Read_roles_eq
    by (simp add: upt_1_Suc_Suc comp_def del: upt_Suc)
qed

lemma length_concat_rows:
  "length (concat (map (\<lambda>k. map (f k) xs) ks)) = length ks * length xs"
  by (induction ks) simp_all

lemma Read_unfold:
  assumes "GetMdsServiceRoles \<lparr>query_Type = RABBITMQ\<rparr> = Inr rolesResponse"
    and "ServiceRoleDTO (Embedded rolesResponse) = first # others"
  shows "serviceRolesDatasource_Read fw RABBITMQ GetMdsServiceRoles state config_diags =
     (let state' = snd (Read_loop (dto_Roles first) (dto_Roles first) ([], state));
          diags = StateSet_diags fw state'
      in Inr \<lparr>read_Diagnostics = Append (Append [] config_diags) diags,
              read_State = (if HasError diags then None else Some state')\<rparr>)"
  using assms by (simp add: serviceRolesDatasource_Read_def Let_def split: prod.splits)

lemma Read_loop_Type:
  "Read_loop rest allRoles (permissionsVal, state\<lparr>Type := t\<rparr>) =
     (fst (Read_loop rest allRoles (permissionsVal, state)),
      (snd (Read_loop rest allRoles (permissionsVal, state)))\<lparr>Type := t\<rparr>)"
  unfolding Read_loop_eq by simp

lemma Read_demo:
  "serviceRolesDatasource_Read quiet_framework ''RABBITMQ''
     (demo_roles_service [\<lparr>dto_Roles = [demo_admin, demo_monitoring]\<rparr>])
     (demo_roles_config type) []
   = Inr \<lparr>read_Diagnostics = [],
          read_State = Some \<lparr>Roles = demo_roles_saved, Type = StringValue type\<rparr>\<rparr>"
  by (simp add: serviceRolesDatasource_Read_def demo_roles_service_def demo_roles_response_def
        demo_roles_config_def demo_roles_saved_def quiet_framework_def HasError_def
        Read_permissions_eq Let_def)

text \<open>
  C8: when the service answers with a response whose \<open>ServiceRoleDTO\<close> list is empty,
  \<open>Read\<close> panics at the index \<open>[0]\<close> instead of returning a diagnostic; with an answer
  of the service, \<open>Read\<close> returns normally exactly when the list has an element.
\<close>

theorem Read_panics_on_empty_ServiceRoleDTO:
  assumes "GetMdsServiceRoles \<lparr>query_Type = RABBITMQ\<rparr> = Inr rolesResponse"
  shows "(serviceRolesDatasource_Read fw RABBITMQ GetMdsServiceRoles state config_diags
            = Inl IndexOutOfRange)
         = (ServiceRoleDTO (Embedded rolesResponse) = [])
       \<and> (\<exists>r. serviceRolesDatasource_Read fw RABBITMQ GetMdsServiceRoles state config_diags
                  = Inr r)
         = (ServiceRoleDTO (Embedded rolesResponse) \<noteq> [])"
  using assms
  by (cases "ServiceRoleDTO (Embedded rolesResponse)")
     (auto simp: serviceRolesDatasource_Read_def Let_def split: prod.splits)

theorem Read_panics_on_empty_ServiceRoleDTO_witness:
  "serviceRolesDatasource_Read quiet_framework ''RABBITMQ'' (demo_roles_service [])
     (demo_roles_config ''RABBITMQ'') [] = Inl IndexOutOfRange
   \<and> ServiceRoleDTO (Embedded (demo_roles_response [])) = []
   \<and> (\<exists>r. serviceRolesDatasource_Read quiet_framework ''RABBITMQ''
             (demo_roles_service [\<lparr>dto_Roles = [demo_admin]\<rparr>])
             (demo_roles_config ''RABBITMQ'') [] = Inr r)"
proof -
  have e: "ServiceRoleDTO (Embedded (demo_roles_response [])) = []"
    by (simp add: demo_roles_response_def)
  have "serviceRolesDatasource_Read quiet_framework ''RABBITMQ'' (demo_roles_service [])
     (demo_roles_config ''RABBITMQ'') [] = Inl IndexOutOfRange"
    using Read_panics_on_empty_ServiceRoleDTO
      [of "demo_roles_service []" "''RABBITMQ''" "demo_roles_response []" quiet_framework
          "demo_roles_config ''RABBITMQ''" "[]"] e
    by (simp add: demo_roles_service_def)
  moreover have "\<exists>r. serviceRolesDatasource_Read quiet_framework ''RABBITMQ''
             (demo_roles_service [\<lparr>dto_Roles = [demo_admin]\<rparr>])
             (demo_roles_config ''RABBITMQ'') [] = Inr r"
    using Read_panics_on_empty_ServiceRoleDTO
      [of "demo_roles_service [\<lparr>dto_Roles = [demo_admin]\<rparr>]" "''RABBITMQ''"
          "demo_roles_response [\<lparr>dto_Roles = [demo_admin]\<rparr>]" quiet_framework
          "demo_roles_config ''RABBITMQ''" "[]"]
    by (simp add: demo_roles_service_def demo_roles_response_def)
  ultimately show ?thesis using e by blast
qed

text \<open>
  C9: \<open>Read\<close> does not use the \<open>type\<close> of the configuration. The only query it sends
  is the one with the constant role type: replacing the service by one that answers
  every query as it answers that one changes nothing. For two configurations that differ
  in \<open>type\<close> only, \<open>Read\<close> panics for both or for none, and the states it stores have
  the same roles (they differ in \<open>type\<close> alone, which \<open>Read\<close> copies from the
  configuration).
\<close>

theorem Read_ignores_type:
  "serviceRolesDatasource_Read fw RABBITMQ GetMdsServiceRoles state config_diags =
     serviceRolesDatasource_Read fw RABBITMQ
       (\<lambda>query. GetMdsServiceRoles \<lparr>query_Type = RABBITMQ\<rparr>) state config_diags
   \<and> ((serviceRolesDatasource_Read fw RABBITMQ GetMdsServiceRoles state config_diags = Inl p)
        = (serviceRolesDatasource_Read fw RABBITMQ GetMdsServiceRoles (state\<lparr>Type := t\<rparr>)
             config_diags = Inl p))
   \<and> (serviceRolesDatasource_Read fw RABBITMQ GetMdsServiceRoles state config_diags = Inr r1
        \<and> read_State r1 = Some s1
        \<and> serviceRolesDatasource_Read fw RABBITMQ GetMdsServiceRoles (state\<lparr>Type := t\<rparr>)
             config_diags = Inr r2
        \<and> read_State r2 = Some s2
      \<longrightarrow> Roles s2 = Roles s1 \<and> s2 = s1\<lparr>Type := t\<rparr>)"
proof -
  have a: "serviceRolesDatasource_Read fw RABBITMQ GetMdsServiceRoles state config_diags =
     serviceRolesDatasource_Read fw RABBITMQ
       (\<lambda>query. GetMdsServiceRoles \<lparr>query_Type = RABBITMQ\<rparr>) state config_diags"
    by (simp add: serviceRolesDatasource_Read_def)
  have b: "(serviceRolesDatasource_Read fw RABBITMQ GetMdsServiceRoles state config_diags = Inl p)
        = (serviceRolesDatasource_Read fw RABBITMQ GetMdsServiceRoles (state\<lparr>Type := t\<rparr>)
             config_diags = Inl p)"
    by (simp add: serviceRolesDatasource_Read_def Let_def
          split: sum.splits list.splits prod.splits)
  have c: "Roles s2 = Roles s1 \<and> s2 = s1\<lparr>Type := t\<rparr>"
    if "serviceRolesDatasource_Read fw RABBITMQ GetMdsServiceRoles state config_diags = Inr r1"
      and "read_State r1 = Some s1"
      and "serviceRolesDatasource_Read fw RABBITMQ GetMdsServiceRoles (state\<lparr>Type := t\<rparr>)
             config_diags = Inr r2"
      and "read_State r2 = Some s2"
  proof (cases "GetMdsServiceRoles \<lparr>query_Type = RABBITMQ\<rparr>")
    case (Inl err)
    with that(1,2) show ?thesis
      by (auto simp: serviceRolesDatasource_Read_def Let_def)
  next
    case (Inr rolesResponse)
    show ?thesis
    proof (cases "ServiceRoleDTO (Embedded rolesResponse)")
      case Nil
      with Inr that(1) show ?thesis
        by (auto simp: serviceRolesDatasource_Read_def Let_def)
    next
      case (Cons first others)
      from that(1,2) have "s1 = snd (Read_loop (dto_Roles first) (dto_Roles first) ([], state))"
        unfolding Read_unfold [of GetMdsServiceRoles RABBITMQ rolesResponse first others, OF Inr Cons]
        by (auto simp: Let_def split: if_splits)
      moreover from that(3,4)
      have "s2 = snd (Read_loop (dto_Roles first) (dto_Roles first) ([], state\<lparr>Type := t\<rparr>))"
        unfolding Read_unfold [of GetMdsServiceRoles RABBITMQ rolesResponse first others, OF Inr Cons]
        by (auto simp: Let_def split: if_splits)
      ultimately show ?thesis
        by (simp add: Read_loop_Type)
    qed
  qed
  from a b c show ?thesis by blast
qed

theorem Read_ignores_type_witness:
  "serviceRolesDatasource_Read quiet_framework ''RABBITMQ''
     (demo_roles_service [\<lparr>dto_Roles = [demo_admin, demo_monitoring]\<rparr>])
     (demo_roles_config ''RABBITMQ'') []
   = serviceRolesDatasource_Read quiet_framework ''RABBITMQ''
       (\<lambda>query. demo_roles_service [\<lparr>dto_Roles = [demo_admin, demo_monitoring]\<rparr>]
                   \<lparr>query_Type = ''RABBITMQ''\<rparr>)
       (demo_roles_config ''RABBITMQ'') []
   \<and> serviceRolesDatasource_Read quiet_framework ''RABBITMQ''
       (demo_roles_service [\<lparr>dto_Roles = [demo_admin, demo_monitoring]\<rparr>])
       (demo_roles_config ''RABBITMQ'') []
     = Inr \<lparr>read_Diagnostics = [],
          read_State = Some \<lparr>Roles = demo_roles_saved, Type = StringValue ''RABBITMQ''\<rparr>\<rparr>
   \<and> serviceRolesDatasource_Read quiet_framework ''RABBITMQ''
       (demo_roles_service [\<lparr>dto_Roles = [demo_admin, demo_monitoring]\<rparr>])
       (demo_roles_config ''MYSQL'') []
     = Inr \<lparr>read_Diagnostics = [],
          read_State = Some \<lparr>Roles = demo_roles_saved, Type = StringValue ''MYSQL''\<rparr>\<rparr>
   \<and> Roles \<lparr>Roles = demo_roles_saved, Type = StringValue ''MYSQL''\<rparr>
       = Roles \<lparr>Roles = demo_roles_saved, Type = StringValue ''RABBITMQ''\<rparr>"
  using Read_ignores_type
    [where fw = quiet_framework and RABBITMQ = "''RABBITMQ''"
       and GetMdsServiceRoles
             = "demo_roles_service [\<lparr>dto_Roles = [demo_admin, demo_monitoring]\<rparr>]"
       and state = "demo_roles_config ''RABBITMQ''" and config_diags = "[]"
       and t = "StringValue ''MYSQL''"
       and ?r1.0 = "\<lparr>read_Diagnostics = [],
          read_State = Some \<lparr>Roles = demo_roles_saved, Type = StringValue ''RABBITMQ''\<rparr>\<rparr>"
       and ?s1.0 = "\<lparr>Roles = demo_roles_saved, Type = StringValue ''RABBITMQ''\<rparr>"
       and ?r2.0 = "\<lparr>read_Diagnostics = [],
          read_State = Some \<lparr>Roles = demo_roles_saved, Type = StringValue ''MYSQL''\<rparr>\<rparr>"
       and ?s2.0 = "\<lparr>Roles = demo_roles_saved, Type = StringValue ''MYSQL''\<rparr>"]
    Read_demo [of "''RABBITMQ''"] Read_demo [of "''MYSQL''"]
  by (simp add: demo_roles_config_def)

text \<open>
  C10: for a response whose first \<open>ServiceRoleDTO\<close> has the roles \<open>roles\<close>, \<open>Read\<close>
  appends \<open>length roles * length roles\<close> entries to the roles of the state: in the
  \<open>k\<close>-th iteration of the outer loop one entry for every role, each with the
  permissions of the first \<open>k\<close> roles together, not those of the entry's own role.
\<close>

theorem Read_appends_every_role_per_role:
  assumes "GetMdsServiceRoles \<lparr>query_Type = RABBITMQ\<rparr> = Inr rolesResponse"
    and "ServiceRoleDTO (Embedded rolesResponse) = first # others"
    and "roles = dto_Roles first"
    and "state' = state\<lparr>Roles := Roles state @
           concat (map (\<lambda>k. map (\<lambda>role. roleList_literal role
                          (concat (map (\<lambda>role. map permission_literal (rl_Permissions role))
                             (take k roles))))
                        roles)
                   [1..<Suc (length roles)])\<rparr>"
  shows "serviceRolesDatasource_Read fw RABBITMQ GetMdsServiceRoles state config_diags =
           Inr \<lparr>read_Diagnostics = Append (Append [] config_diags) (StateSet_diags fw state'),
                read_State = (if HasError (StateSet_diags fw state') then None else Some state')\<rparr>
         \<and> length (Roles state') = length (Roles state) + length roles * length roles"
proof -
  have "snd (Read_loop roles roles ([], state)) = state'"
    unfolding Read_loop_eq assms(4) by simp
  then have "serviceRolesDatasource_Read fw RABBITMQ GetMdsServiceRoles state config_diags =
           Inr \<lparr>read_Diagnostics = Append (Append [] config_diags) (StateSet_diags fw state'),
                read_State = (if HasError (StateSet_diags fw state') then None else Some state')\<rparr>"
    unfolding Read_unfold [of GetMdsServiceRoles RABBITMQ rolesResponse first others, OF assms(1,2)]
      assms(3) [symmetric]
    by (simp add: Let_def)
  moreover have "length (Roles state') = length (Roles state) + length roles * length roles"
    unfolding assms(4) by (simp add: length_concat_rows del: upt_Suc)
  ultimately show ?thesis by blast
qed

theorem Read_appends_every_role_per_role_witness:
  "serviceRolesDatasource_Read quiet_framework ''RABBITMQ''
     (demo_roles_service [\<lparr>dto_Roles = [demo_admin, demo_monitoring]\<rparr>])
     (demo_roles_config ''RABBITMQ'') []
   = Inr \<lparr>read_Diagnostics = [],
          read_State = Some \<lparr>Roles = demo_roles_saved, Type = StringValue ''RABBITMQ''\<rparr>\<rparr>
   \<and> length demo_roles_saved = 2 * 2
   \<and> Permissions (demo_roles_saved ! 1) = map permission_literal (rl_Permissions demo_admin)
   \<and> Permissions (demo_roles_saved ! 3)
       = map permission_literal (rl_Permissions demo_admin @ rl_Permissions demo_monitoring)"
proof -
  have "serviceRolesDatasource_Read quiet_framework ''RABBITMQ''
     (demo_roles_service [\<lparr>dto_Roles = [demo_admin, demo_monitoring]\<rparr>])
     (demo_roles_config ''RABBITMQ'') []
   = Inr \<lparr>read_Diagnostics = [],
          read_State = Some \<lparr>Roles = demo_roles_saved, Type = StringValue ''RABBITMQ''\<rparr>\<rparr>
   \<and> length demo_roles_saved = 2 * 2"
    using Read_appends_every_role_per_role
      [where GetMdsServiceRoles = "demo_roles_service [\<lparr>dto_Roles = [demo_admin, demo_monitoring]\<rparr>]"
         and RABBITMQ = "''RABBITMQ''"
         and rolesResponse = "demo_roles_response [\<lparr>dto_Roles = [demo_admin, demo_monitoring]\<rparr>]"
         and first = "\<lparr>dto_Roles = [demo_admin, demo_monitoring]\<rparr>" and others = "[]"
         and roles = "[demo_admin, demo_monitoring]"
         and state = "demo_roles_config ''RABBITMQ''"
         and state' = "\<lparr>Roles = demo_roles_saved, Type = StringValue ''RABBITMQ''\<rparr>"
         and fw = quiet_framework and config_diags = "[]"]
    by (simp add: demo_roles_service_def demo_roles_response_def demo_roles_config_def
          demo_roles_saved_def quiet_framework_def HasError_def)
  moreover have "Permissions (demo_roles_saved ! 1)
                   = map permission_literal (rl_Permissions demo_admin)"
    by (simp add: demo_roles_saved_def roleList_literal_def)
  moreover have "Permissions (demo_roles_saved ! 3)
       = map permission_literal (rl_Permissions demo_admin @ rl_Permissions demo_monitoring)"
    by (simp add: demo_roles_saved_def roleList_literal_def eval_nat_numeral)
  ultimately show ?thesis by blast
qed

end
